theory Spec2Isabelle
  imports Complex_Main
begin

section \<open>The virtual portfolio (src/virtual\_portfolio.py)\<close>

text \<open>
  Python floats are modelled as reals: rounding, NaN and overflow are outside the
  model. The one infinite value the source stores, \<^verbatim>\<open>float('inf')\<close> in
  \<^verbatim>\<open>lowest_price\<close>, is the constructor \<open>Infinity\<close>. A float division by
  zero raises \<^verbatim>\<open>ZeroDivisionError\<close> in Python; every division of the source is
  guarded in the model by the test that raises. Wall-clock fields (\<^verbatim>\<open>entry_time\<close>,
  \<^verbatim>\<open>exit_time\<close>, \<^verbatim>\<open>holding_duration\<close>) and log lines are left out.
  Instrument symbols are ASCII strings. \<^verbatim>\<open>db.insert_virtual_trade\<close> catches its
  own errors and returns; the ledger keeps the records handed to it.
\<close>

subsection \<open>Constants of \<^verbatim>\<open>VirtualPortfolio.__init__\<close> and \<^verbatim>\<open>config.py\<close>\<close>

definition trading_fee_rate :: real where
  "trading_fee_rate = 0.0004"

definition slippage_rate :: real where
  "slippage_rate = 0.001"

definition partial_take_profit_ratio :: real where
  "partial_take_profit_ratio = 0.5"

definition trailing_stop_ratio :: real where
  "trailing_stop_ratio = 0.02"

definition DEFAULT_SYMBOL :: string where
  "DEFAULT_SYMBOL = ''SOL/USDT''"

subsection \<open>\<^verbatim>\<open>normalize_symbol\<close>\<close>

definition upper_char :: "char \<Rightarrow> char" where
  "upper_char c =
     (if 97 \<le> (of_char c :: nat) \<and> (of_char c :: nat) \<le> 122
      then char_of ((of_char c :: nat) - 32) else c)"

definition upper :: "string \<Rightarrow> string" where
  "upper s = map upper_char s"

text \<open>The ASCII characters that \<^verbatim>\<open>str.strip()\<close> removes: 9 to 13, 28 to 32.\<close>

definition is_space :: "char \<Rightarrow> bool" where
  "is_space c =
     ((9 \<le> (of_char c :: nat) \<and> (of_char c :: nat) \<le> 13) \<or>
      (28 \<le> (of_char c :: nat) \<and> (of_char c :: nat) \<le> 32))"

definition strip :: "string \<Rightarrow> string" where
  "strip s = rev (dropWhile is_space (rev (dropWhile is_space s)))"

definition endswith :: "string \<Rightarrow> string \<Rightarrow> bool" where
  "endswith s suf = (length suf \<le> length s \<and> drop (length s - length suf) s = suf)"

text \<open>\<^verbatim>\<open>symbol.split("/")[0]\<close>: the part before the first slash.\<close>

definition split_base :: "string \<Rightarrow> string" where
  "split_base s = takeWhile (\<lambda>c. c \<noteq> CHR ''/'') s"

definition normalize_symbol :: "string \<Rightarrow> string" where
  "normalize_symbol symbol0 =
     (if symbol0 = [] then DEFAULT_SYMBOL
      else
        let symbol1 = strip (upper symbol0) in
        if CHR ''/'' \<in> set symbol1 \<and> endswith symbol1 ''USDT'' then symbol1
        else
          let symbol2 =
                (if \<not> endswith symbol1 ''USDT''
                 then (if CHR ''/'' \<in> set symbol1
                       then split_base symbol1 @ ''/USDT''
                       else symbol1 @ ''/USDT'')
                 else symbol1);
              symbol3 =
                (if CHR ''/'' \<notin> set symbol2 \<and> endswith symbol2 ''USDT''
                 then take (length symbol2 - 4) symbol2 @ ''/USDT''
                 else symbol2)
          in symbol3)"

subsection \<open>Data\<close>

datatype py_error = ZeroDivisionError

datatype watermark = Finite real | Infinity

fun less_watermark :: "real \<Rightarrow> watermark \<Rightarrow> bool" where
  "less_watermark x (Finite y) = (x < y)"
| "less_watermark x Infinity = True"

record position =
  symbol :: string
  direction :: string
  entry_price :: real
  original_entry_price :: real
  position_size :: real
  leverage :: real
  invested_amount :: real
  target_price :: "real option"
  stop_loss :: "real option"
  entry_fee :: real
  highest_price :: real
  lowest_price :: watermark
  trailing_stop_price :: "real option"
  partial_profit_taken :: bool
  total_fees_paid :: real

text \<open>The two shapes of \<^verbatim>\<open>trade_data\<close> handed to \<^verbatim>\<open>db.insert_virtual_trade\<close>.\<close>

record enter_trade =
  et_symbol :: string
  et_direction :: string
  et_price :: real
  et_size :: real
  et_leverage :: real
  et_invested_amount :: real
  et_target_price :: "real option"
  et_stop_loss :: "real option"

record exit_trade =
  xt_symbol :: string
  xt_direction :: string
  xt_price :: real
  xt_size :: real
  xt_leverage :: real
  xt_realized_pnl :: real
  xt_exit_reason :: string

datatype trade = ENTER enter_trade | EXIT exit_trade

record exit_info =
  xi_symbol :: string
  xi_direction :: string
  xi_entry_price :: real
  xi_exit_price :: real
  xi_original_exit_price :: real
  xi_position_size :: real
  xi_leverage :: real
  xi_invested_amount :: real
  xi_realized_pnl :: real
  xi_realized_pnl_percentage :: real
  xi_exit_reason :: string
  xi_exit_fee :: real
  xi_total_fees :: real
  xi_partial_exit :: bool
  xi_exit_ratio :: real

text \<open>
  The ledger: the two mutable attributes of \<^verbatim>\<open>VirtualPortfolio\<close> and the trade
  records emitted so far, in order.
\<close>

record ledger =
  current_balance :: real
  current_position :: "position option"
  trades :: "trade list"

subsection \<open>Operations\<close>

definition can_enter_position :: "ledger \<Rightarrow> string \<Rightarrow> real \<Rightarrow> bool" where
  "can_enter_position s symb lev =
     (let min_balance = 100 in
      if current_balance s < min_balance then False else True)"

definition apply_slippage :: "real \<Rightarrow> string \<Rightarrow> string \<Rightarrow> real" where
  "apply_slippage price dir action =
     (if action = ''ENTER''
      then (if dir = ''LONG'' then price * (1 + slippage_rate)
            else price * (1 - slippage_rate))
      else (if dir = ''LONG'' then price * (1 - slippage_rate)
            else price * (1 + slippage_rate)))"

text \<open>
  \<^verbatim>\<open>_calculate_position_metrics\<close>: position value, profit and loss, and its
  percentage. \<open>Inl ZeroDivisionError\<close> is the exception of the two unguarded
  divisions.
\<close>

definition calculate_position_metrics ::
  "position option \<Rightarrow> real \<Rightarrow> real option \<Rightarrow> py_error + (real \<times> real \<times> real)" where
  "calculate_position_metrics cur current_price size_opt =
     (case cur of
        None \<Rightarrow> Inr (0, 0, 0)
      | Some pos \<Rightarrow>
          let psize = (case size_opt of None \<Rightarrow> position_size pos | Some z \<Rightarrow> z) in
          if position_size pos = 0 then Inl ZeroDivisionError
          else
            let position_ratio = psize / position_size pos;
                invested = invested_amount pos * position_ratio
            in
            if entry_price pos = 0 then Inl ZeroDivisionError
            else
              let price_change_rate =
                    (if direction pos = ''LONG''
                     then (current_price - entry_price pos) / entry_price pos
                     else (entry_price pos - current_price) / entry_price pos);
                  leveraged_return_rate = price_change_rate * leverage pos;
                  position_value0 = invested * (1 + leveraged_return_rate);
                  min_value = invested * 0.05;
                  position_value = max position_value0 min_value;
                  pnl = position_value - invested;
                  pnl_percentage = (if invested > 0 then (pnl / invested) * 100 else 0)
              in Inr (position_value, pnl, pnl_percentage))"

text \<open>
  \<^verbatim>\<open>exit_position\<close>. The result is \<open>None\<close> where the source returns
  \<^verbatim>\<open>None\<close>: no position, or an exception caught by its \<^verbatim>\<open>except\<close>; the
  ledger returned is the one the source leaves behind at that point.
\<close>

definition exit_position ::
  "ledger \<Rightarrow> real \<Rightarrow> string \<Rightarrow> real \<Rightarrow> exit_info option \<times> ledger" where
  "exit_position s exit_price reason partial_ratio =
     (case current_position s of
        None \<Rightarrow> (None, s)
      | Some pos \<Rightarrow>
          let actual_exit_price = apply_slippage exit_price (direction pos) ''EXIT'';
              exit_position_size = position_size pos * partial_ratio
          in
          (case calculate_position_metrics (Some pos) actual_exit_price (Some exit_position_size) of
            Inl e \<Rightarrow> (None, s)
          | Inr (position_value, pnl, pnl_percentage) \<Rightarrow>
              let exit_fee = position_value * trading_fee_rate;
                  final_position_value = position_value - exit_fee;
                  realized_pnl = pnl - exit_fee;
                  s1 = s\<lparr>current_balance := current_balance s + final_position_value\<rparr>
              in
              if invested_amount pos * partial_ratio = 0 then (None, s1)
              else
                let info = \<lparr>xi_symbol = symbol pos,
                            xi_direction = direction pos,
                            xi_entry_price = entry_price pos,
                            xi_exit_price = actual_exit_price,
                            xi_original_exit_price = exit_price,
                            xi_position_size = exit_position_size,
                            xi_leverage = leverage pos,
                            xi_invested_amount = invested_amount pos * partial_ratio,
                            xi_realized_pnl = realized_pnl,
                            xi_realized_pnl_percentage =
                              (realized_pnl / (invested_amount pos * partial_ratio)) * 100,
                            xi_exit_reason = reason,
                            xi_exit_fee = exit_fee,
                            xi_total_fees = total_fees_paid pos + exit_fee,
                            xi_partial_exit = (partial_ratio < 1),
                            xi_exit_ratio = partial_ratio\<rparr>;
                    trade_data = \<lparr>xt_symbol = symbol pos,
                                  xt_direction = direction pos,
                                  xt_price = actual_exit_price,
                                  xt_size = exit_position_size,
                                  xt_leverage = leverage pos,
                                  xt_realized_pnl = realized_pnl,
                                  xt_exit_reason = reason\<rparr>;
                    s2 = s1\<lparr>trades := trades s1 @ [EXIT trade_data]\<rparr>
                in
                if partial_ratio < 1
                then (Some info,
                      s2\<lparr>current_position := Some (pos\<lparr>
                            position_size := position_size pos * (1 - partial_ratio),
                            invested_amount := invested_amount pos * (1 - partial_ratio),
                            total_fees_paid := total_fees_paid pos + exit_fee,
                            partial_profit_taken :=
                              (if reason = ''Partial Take Profit'' then True
                               else partial_profit_taken pos)\<rparr>)\<rparr>)
                else (Some info, s2\<lparr>current_position := None\<rparr>)))"

text \<open>
  \<^verbatim>\<open>enter_position\<close> from line 99 on (the balance check, the sizing, the new
  position, the balance update and the trade record); \<open>symb\<close> is the symbol already
  normalised.
\<close>

definition open_position ::
  "ledger \<Rightarrow> string \<Rightarrow> string \<Rightarrow> real \<Rightarrow> real \<Rightarrow> real option \<Rightarrow> real option
     \<Rightarrow> bool \<times> ledger" where
  "open_position s symb dir price lev tgt stop =
     (if \<not> can_enter_position s symb lev then (False, s)
      else
        let actual_entry_price = apply_slippage price dir ''ENTER'';
            available_balance = current_balance s * 0.95;
            fee_amount = available_balance * trading_fee_rate;
            invested = available_balance - fee_amount
        in
        if actual_entry_price = 0 then (False, s)
        else
          let psize = (invested * lev) / actual_entry_price;
              pos = \<lparr>symbol = symb,
                     direction = dir,
                     entry_price = actual_entry_price,
                     original_entry_price = price,
                     position_size = psize,
                     leverage = lev,
                     invested_amount = invested,
                     target_price = tgt,
                     stop_loss = stop,
                     entry_fee = fee_amount,
                     highest_price = (if dir = ''LONG'' then actual_entry_price else 0),
                     lowest_price = (if dir = ''SHORT'' then Finite actual_entry_price
                                     else Infinity),
                     trailing_stop_price = None,
                     partial_profit_taken = False,
                     total_fees_paid = fee_amount\<rparr>;
              trade_data = \<lparr>et_symbol = symb,
                            et_direction = dir,
                            et_price = actual_entry_price,
                            et_size = psize,
                            et_leverage = lev,
                            et_invested_amount = invested,
                            et_target_price = tgt,
                            et_stop_loss = stop\<rparr>
          in (True, s\<lparr>current_position := Some pos,
                      current_balance := current_balance s - available_balance,
                      trades := trades s @ [ENTER trade_data]\<rparr>))"

text \<open>
  \<^verbatim>\<open>enter_position\<close> and \<^verbatim>\<open>_flip_position\<close> call each other: the flip closes
  the position and enters again with \<^verbatim>\<open>force_flip=True\<close>, which skips the block
  that could flip once more.
\<close>

function enter_position ::
  "ledger \<Rightarrow> string \<Rightarrow> string \<Rightarrow> real \<Rightarrow> real \<Rightarrow> real option \<Rightarrow> real option \<Rightarrow> bool
     \<Rightarrow> bool \<times> ledger"
and flip_position ::
  "ledger \<Rightarrow> string \<Rightarrow> real \<Rightarrow> real \<Rightarrow> real option \<Rightarrow> real option \<Rightarrow> bool \<times> ledger"
where
  "enter_position s raw_symbol dir price lev tgt stop force_flip =
     (case current_position s of
        None \<Rightarrow> open_position s (normalize_symbol raw_symbol) dir price lev tgt stop
      | Some cur \<Rightarrow>
          if force_flip
          then open_position s (normalize_symbol raw_symbol) dir price lev tgt stop
          else if symbol cur = normalize_symbol raw_symbol \<and> direction cur = dir
          then (False, s)
          else if symbol cur = normalize_symbol raw_symbol \<and> direction cur \<noteq> dir
          then flip_position s dir price lev tgt stop
          else open_position (snd (exit_position s price ''Position Switch'' 1))
                 (normalize_symbol raw_symbol) dir price lev tgt stop)"
| "flip_position s new_direction new_entry_price lev tgt stop =
     (case fst (exit_position s new_entry_price ''Position Flip'' 1) of
        None \<Rightarrow> (False, snd (exit_position s new_entry_price ''Position Flip'' 1))
      | Some info \<Rightarrow>
          enter_position (snd (exit_position s new_entry_price ''Position Flip'' 1))
            (case current_position (snd (exit_position s new_entry_price ''Position Flip'' 1)) of
               Some cur \<Rightarrow> symbol cur
             | None \<Rightarrow> xi_symbol info)
            new_direction new_entry_price lev tgt stop True)"
  by pat_completeness auto
termination
  by (relation "measure (\<lambda>x. case x of
        Inl (s, raw_symbol, dir, price, lev, tgt, stop, force_flip) \<Rightarrow>
          (if force_flip then 0 else 2)
      | Inr z \<Rightarrow> 1)") auto

declare enter_position.simps [simp del]
declare flip_position.simps [simp del]

text \<open>\<^verbatim>\<open>update_trailing_stop\<close>: the flag returned and the ledger after the call.\<close>

definition update_trailing_stop :: "ledger \<Rightarrow> real \<Rightarrow> bool \<times> ledger" where
  "update_trailing_stop s current_price =
     (case current_position s of
        None \<Rightarrow> (False, s)
      | Some pos \<Rightarrow>
          if direction pos = ''LONG''
          then (if current_price > highest_price pos
                then (True, s\<lparr>current_position := Some (pos\<lparr>
                        highest_price := current_price,
                        trailing_stop_price :=
                          Some (current_price * (1 - trailing_stop_ratio))\<rparr>)\<rparr>)
                else (False, s))
          else (if less_watermark current_price (lowest_price pos)
                then (True, s\<lparr>current_position := Some (pos\<lparr>
                        lowest_price := Finite current_price,
                        trailing_stop_price :=
                          Some (current_price * (1 + trailing_stop_ratio))\<rparr>)\<rparr>)
                else (False, s)))"

definition execute_partial_take_profit :: "ledger \<Rightarrow> real \<Rightarrow> exit_info option \<times> ledger" where
  "execute_partial_take_profit s current_price =
     (case current_position s of
        None \<Rightarrow> (None, s)
      | Some pos \<Rightarrow> exit_position s current_price ''Partial Take Profit''
                      partial_take_profit_ratio)"

subsection \<open>Call sequences\<close>

text \<open>
  The three mutating calls of the ledger, and a ledger driven by a list of them from
  the state \<^verbatim>\<open>VirtualPortfolio(initial_balance)\<close> constructs.
\<close>

datatype ledger_call =
    Enter string string real real "real option" "real option" bool
  | Exit real string real
  | Trail real

fun apply_call :: "ledger \<Rightarrow> ledger_call \<Rightarrow> ledger" where
  "apply_call s (Enter raw_symbol dir price lev tgt stop force_flip) =
     snd (enter_position s raw_symbol dir price lev tgt stop force_flip)"
| "apply_call s (Exit price reason partial_ratio) =
     snd (exit_position s price reason partial_ratio)"
| "apply_call s (Trail price) = snd (update_trailing_stop s price)"

definition run_calls :: "ledger \<Rightarrow> ledger_call list \<Rightarrow> ledger" where
  "run_calls s cs = foldl apply_call s cs"

definition initial_ledger :: "real \<Rightarrow> ledger" where
  "initial_ledger initial_balance =
     \<lparr>current_balance = initial_balance, current_position = None, trades = []\<rparr>"

text \<open>A call whose close fraction is not negative (entries and trailing updates pass).\<close>

fun fraction_nonneg :: "ledger_call \<Rightarrow> bool" where
  "fraction_nonneg (Exit price reason partial_ratio) = (0 \<le> partial_ratio)"
| "fraction_nonneg (Enter raw_symbol dir price lev tgt stop force_flip) = True"
| "fraction_nonneg (Trail price) = True"


definition trailing_stop_of :: "ledger \<Rightarrow> real option" where
  "trailing_stop_of s =
     (case current_position s of None \<Rightarrow> None | Some pos \<Rightarrow> trailing_stop_price pos)"

definition side_of :: "ledger \<Rightarrow> string option" where
  "side_of s = (case current_position s of None \<Rightarrow> None | Some pos \<Rightarrow> Some (direction pos))"

definition run_trailing :: "ledger \<Rightarrow> real list \<Rightarrow> ledger" where
  "run_trailing s prices = foldl (\<lambda>s1 p. snd (update_trailing_stop s1 p)) s prices"

subsection \<open>Calls that overlap\<close>







subsection \<open>Invariants used in the proofs\<close>

definition trimmed :: "string \<Rightarrow> bool" where
  "trimmed xs = (xs = [] \<or> (\<not> is_space (hd xs) \<and> \<not> is_space (last xs)))"


definition solvent :: "ledger \<Rightarrow> bool" where
  "solvent s =
     (0 \<le> current_balance s \<and>
      (case current_position s of None \<Rightarrow> True | Some pos \<Rightarrow> 0 \<le> invested_amount pos))"

text \<open>The trailing stop, once set, sits at the fixed ratio from the watermark.\<close>

definition trail_consistent :: "ledger \<Rightarrow> bool" where
  "trail_consistent s =
     (case current_position s of
        None \<Rightarrow> True
      | Some pos \<Rightarrow>
          (case trailing_stop_price pos of
             None \<Rightarrow> True
           | Some t \<Rightarrow>
               if direction pos = ''LONG''
               then t = highest_price pos * (1 - trailing_stop_ratio)
               else (case lowest_price pos of
                       Infinity \<Rightarrow> False
                     | Finite l \<Rightarrow> t = l * (1 + trailing_stop_ratio))))"

subsection \<open>The exit accounting in the specification's words\<close>

text \<open>
  The quantities section 4.1 of the specification names for \<^verbatim>\<open>exitPosition\<close>,
  written from its sentences, to be compared with what \<open>exit_position\<close> computes.
  A side other than LONG is read as SHORT, as the source does.
\<close>

definition exit_fill :: "position \<Rightarrow> real \<Rightarrow> real" where
  "exit_fill pos market_price =
     (if direction pos = ''LONG'' then market_price * (1 - slippage_rate)
      else market_price * (1 + slippage_rate))"

definition directional_change_rate :: "position \<Rightarrow> real \<Rightarrow> real" where
  "directional_change_rate pos fill =
     (if direction pos = ''LONG'' then (fill - entry_price pos) / entry_price pos
      else (entry_price pos - fill) / entry_price pos)"

definition slice_margin :: "position \<Rightarrow> real \<Rightarrow> real" where
  "slice_margin pos close_fraction = invested_amount pos * close_fraction"

definition slice_value :: "position \<Rightarrow> real \<Rightarrow> real \<Rightarrow> real" where
  "slice_value pos fill close_fraction =
     max (slice_margin pos close_fraction * (1 + leverage pos * directional_change_rate pos fill))
         (0.05 * slice_margin pos close_fraction)"

text \<open>What a full close at the market price credits: the slice value less the exit fee.\<close>

definition close_credit :: "position \<Rightarrow> real \<Rightarrow> real" where
  "close_credit pos market_price =
     slice_value pos (exit_fill pos market_price) 1
       - slice_value pos (exit_fill pos market_price) 1 * trading_fee_rate"

section \<open>The signal detector (src/market\_analyzer.py)\<close>

text \<open>
  The module defines the class \<^verbatim>\<open>SignalDetector\<close> twice; the second definition
  (line 1787) rebinds the name, so it is the class every caller instantiates. Its two
  crossover detectors are modelled here. A series is a list of optional samples
  (\<^verbatim>\<open>None\<close> for a missing value), as \<^verbatim>\<open>safe_extract_series\<close> builds it. The
  \<^verbatim>\<open>description\<close> text of a signal is left out.
\<close>

record signal =
  sg_symbol :: string
  sg_type :: string
  sg_strength :: string
  sg_value :: real
  sg_direction :: string
  sg_priority :: nat

text \<open>\<^verbatim>\<open>[x for x in series[-5:] if x is not None]\<close>\<close>

definition recent5 :: "real option list \<Rightarrow> real list" where
  "recent5 series =
     concat (map (\<lambda>x. case x of None \<Rightarrow> [] | Some v \<Rightarrow> [v])
               (drop (length series - 5) series))"

text \<open>
  The guards of both detectors (at least five samples, at least four of the last five
  present) and the two values they compare: \<^verbatim>\<open>recent[-2]\<close> and \<^verbatim>\<open>recent[-1]\<close>.
\<close>

definition enough_samples :: "real option list \<Rightarrow> bool" where
  "enough_samples series = (5 \<le> length series \<and> 4 \<le> length (recent5 series))"

definition prev_sample :: "real option list \<Rightarrow> real" where
  "prev_sample series = recent5 series ! (length (recent5 series) - 2)"

definition curr_sample :: "real option list \<Rightarrow> real" where
  "curr_sample series = last (recent5 series)"

definition ma_strength :: "real \<Rightarrow> string" where
  "ma_strength diff_pct =
     (if diff_pct > 1.0 then ''VERY_HIGH'' else if diff_pct > 0.5 then ''HIGH'' else ''MEDIUM'')"

text \<open>
  \<^verbatim>\<open>_detect_real_ma_crossover\<close>. The division by the last slow value raises when
  that value is zero; the \<^verbatim>\<open>except\<close> then returns the empty list.
\<close>

definition detect_real_ma_crossover ::
  "real option list \<Rightarrow> real option list \<Rightarrow> string \<Rightarrow> signal list" where
  "detect_real_ma_crossover ma_20_series ma_50_series symb =
     (if length ma_20_series < 5 \<or> length ma_50_series < 5 then []
      else
        let recent_20 = recent5 ma_20_series;
            recent_50 = recent5 ma_50_series
        in
        if length recent_20 < 4 \<or> length recent_50 < 4 then []
        else
          let prev_diff = recent_20 ! (length recent_20 - 2) - recent_50 ! (length recent_50 - 2);
              curr_diff = last recent_20 - last recent_50
          in
          if prev_diff \<le> 0 \<and> curr_diff > 0
          then (if last recent_50 = 0 then []
                else
                  let diff_pct = \<bar>curr_diff\<bar> / last recent_50 * 100;
                      strength = ma_strength diff_pct
                  in [\<lparr>sg_symbol = symb,
                       sg_type = ''GOLDEN_CROSS'',
                       sg_strength = strength,
                       sg_value = diff_pct,
                       sg_direction = ''BUY'',
                       sg_priority = (if strength = ''VERY_HIGH'' then 4 else 3)\<rparr>])
          else if prev_diff \<ge> 0 \<and> curr_diff < 0
          then (if last recent_50 = 0 then []
                else
                  let diff_pct = \<bar>curr_diff\<bar> / last recent_50 * 100;
                      strength = ma_strength diff_pct
                  in [\<lparr>sg_symbol = symb,
                       sg_type = ''DEAD_CROSS'',
                       sg_strength = strength,
                       sg_value = diff_pct,
                       sg_direction = ''SELL'',
                       sg_priority = (if strength = ''VERY_HIGH'' then 4 else 3)\<rparr>])
          else [])"

text \<open>\<^verbatim>\<open>_detect_real_macd_crossover\<close>\<close>

definition detect_real_macd_crossover ::
  "real option list \<Rightarrow> real option list \<Rightarrow> string \<Rightarrow> signal list" where
  "detect_real_macd_crossover macd_series signal_series symb =
     (if length macd_series < 5 \<or> length signal_series < 5 then []
      else
        let recent_macd = recent5 macd_series;
            recent_signal = recent5 signal_series
        in
        if length recent_macd < 4 \<or> length recent_signal < 4 then []
        else
          let prev_diff = recent_macd ! (length recent_macd - 2)
                            - recent_signal ! (length recent_signal - 2);
              curr_diff = last recent_macd - last recent_signal
          in
          if prev_diff \<le> 0 \<and> curr_diff > 0
          then (let strength = (if \<bar>curr_diff\<bar> > 0.001 then ''HIGH'' else ''MEDIUM'')
                in [\<lparr>sg_symbol = symb,
                     sg_type = ''MACD_BULLISH_CROSS'',
                     sg_strength = strength,
                     sg_value = \<bar>curr_diff\<bar>,
                     sg_direction = ''BUY'',
                     sg_priority = (if strength = ''HIGH'' then 3 else 2)\<rparr>])
          else if prev_diff \<ge> 0 \<and> curr_diff < 0
          then (let strength = (if \<bar>curr_diff\<bar> > 0.001 then ''HIGH'' else ''MEDIUM'')
                in [\<lparr>sg_symbol = symb,
                     sg_type = ''MACD_BEARISH_CROSS'',
                     sg_strength = strength,
                     sg_value = \<bar>curr_diff\<bar>,
                     sg_direction = ''SELL'',
                     sg_priority = (if strength = ''HIGH'' then 3 else 2)\<rparr>])
          else [])"

section \<open>Example ledgers\<close>

text \<open>
  The ledger of the specification's worked example: balance 10000, then
  \<^verbatim>\<open>enterPosition("X", LONG, 100, leverage=2, target=110, stop=95)\<close>.
\<close>

definition worked_position :: position where
  "worked_position =
     \<lparr>symbol = ''X/USDT'',
      direction = ''LONG'',
      entry_price = 100.1,
      original_entry_price = 100,
      position_size = 9496.2 * 2 / 100.1,
      leverage = 2,
      invested_amount = 9496.2,
      target_price = Some 110,
      stop_loss = Some 95,
      entry_fee = 3.8,
      highest_price = 100.1,
      lowest_price = Infinity,
      trailing_stop_price = None,
      partial_profit_taken = False,
      total_fees_paid = 3.8\<rparr>"

definition worked_ledger :: ledger where
  "worked_ledger =
     \<lparr>current_balance = 500,
      current_position = Some worked_position,
      trades = [ENTER \<lparr>et_symbol = ''X/USDT'',
                        et_direction = ''LONG'',
                        et_price = 100.1,
                        et_size = 9496.2 * 2 / 100.1,
                        et_leverage = 2,
                        et_invested_amount = 9496.2,
                        et_target_price = Some 110,
                        et_stop_loss = Some 95\<rparr>]\<rparr>"



section \<open>Properties of \<open>normalize_symbol\<close>\<close>

lemma upper_char_idem: "upper_char (upper_char c) = upper_char c"
  by (auto simp: upper_char_def)

lemma is_space_upper_char: "is_space (upper_char c) = is_space c"
  by (auto simp: upper_char_def is_space_def)

lemma upper_idem: "upper (upper s) = upper s"
  by (simp add: upper_def upper_char_idem)

lemma dropWhile_space_upper:
  "dropWhile is_space (upper s) = upper (dropWhile is_space s)"
  by (induction s) (auto simp: upper_def is_space_upper_char)

lemma upper_rev: "upper (rev s) = rev (upper s)"
  by (simp add: upper_def rev_map)

lemma strip_upper: "strip (upper s) = upper (strip s)"
  by (simp add: strip_def dropWhile_space_upper upper_rev [symmetric])

lemma trimmed_strip: "trimmed (strip s)"
proof -
  define a where "a = dropWhile is_space s"
  define b where "b = dropWhile is_space (rev a)"
  have s: "strip s = rev b" by (simp add: strip_def a_def b_def)
  show ?thesis
  proof (cases "b = []")
    case True
    then show ?thesis by (simp add: s trimmed_def)
  next
    case False
    then have hb: "\<not> is_space (hd b)"
      unfolding b_def by (metis hd_dropWhile)
    from False have ra: "rev a \<noteq> []" unfolding b_def by auto
    then have a: "a \<noteq> []" by simp
    then have ha: "\<not> is_space (hd a)"
      unfolding a_def by (metis hd_dropWhile)
    have "last b = last (rev a)"
      using False unfolding b_def
      by (metis append_Nil2 last_appendR takeWhile_dropWhile_id)
    then have "last b = hd a" using a by (simp add: last_rev)
    with ha hb False show ?thesis
      by (simp add: s trimmed_def hd_rev last_rev)
  qed
qed

lemma strip_trimmed: "trimmed xs \<Longrightarrow> strip xs = xs"
proof (cases "xs = []")
  case True
  then show ?thesis by (simp add: strip_def)
next
  case False
  assume "trimmed xs"
  with False have h: "\<not> is_space (hd xs)" and l: "\<not> is_space (last xs)"
    by (simp_all add: trimmed_def)
  from False h have 1: "dropWhile is_space xs = xs"
    by (cases xs) simp_all
  from False obtain ys y where xs: "xs = ys @ [y]"
    by (metis append_butlast_last_id)
  with l have 2: "dropWhile is_space (rev xs) = rev xs"
    by simp
  show ?thesis by (simp add: strip_def 1 2)
qed

lemma normalize_fixpoint:
  assumes "upper r = r" and "trimmed r" and "CHR ''/'' \<in> set r" and "endswith r ''USDT''"
  shows "normalize_symbol r = r"
proof -
  from assms(3) have "r \<noteq> []" by auto
  moreover have "strip (upper r) = r" using assms(1,2) by (simp add: strip_trimmed)
  ultimately show ?thesis using assms(3,4) by (simp add: normalize_symbol_def)
qed

lemma upper_take: "upper u = u \<Longrightarrow> upper (take n u) = take n u"
  by (metis take_map upper_def)

lemma upper_usdt: "upper (b @ ''/USDT'') = upper b @ ''/USDT''"
  by (simp add: upper_def upper_char_def)

lemma endswith_usdt: "endswith (b @ ''/USDT'') ''USDT''"
  by (simp add: endswith_def)

lemma trimmed_base:
  assumes "trimmed u" and "b = take n u"
  shows "trimmed (b @ ''/USDT'')"
proof (cases "b = []")
  case True
  then show ?thesis by (simp add: trimmed_def is_space_def)
next
  case False
  with assms have "u \<noteq> []" and "hd b = hd u" by (auto simp: hd_take)
  with assms(1) False show ?thesis by (simp add: trimmed_def is_space_def)
qed

lemma suffixed_fix:
  assumes "upper u = u" and "trimmed u" and "b = take n u"
  shows "normalize_symbol (b @ ''/USDT'') = b @ ''/USDT''"
proof (rule normalize_fixpoint)
  show "upper (b @ ''/USDT'') = b @ ''/USDT''"
    using assms by (simp add: upper_usdt upper_take)
  show "trimmed (b @ ''/USDT'')" by (rule trimmed_base [OF assms(2,3)])
  show "CHR ''/'' \<in> set (b @ ''/USDT'')" by simp
  show "endswith (b @ ''/USDT'') ''USDT''" by (rule endswith_usdt)
qed

lemma normalize_symbol_idem: "normalize_symbol (normalize_symbol s) = normalize_symbol s"
proof (cases "s = []")
  case True
  then show ?thesis
    by (simp add: normalize_symbol_def DEFAULT_SYMBOL_def strip_def upper_def upper_char_def
        is_space_def endswith_def)
next
  case False
  define u where "u = strip (upper s)"
  have up: "upper u = u" by (simp add: u_def strip_upper upper_idem)
  have tr: "trimmed u" by (simp add: u_def trimmed_strip)
  have sb: "split_base u = take (length (split_base u)) u"
    unfolding split_base_def by (metis takeWhile_eq_take)
  have f1: "normalize_symbol (split_base u @ ''/USDT'') = split_base u @ ''/USDT''"
    by (rule suffixed_fix [OF up tr sb])
  have f2: "normalize_symbol (u @ ''/USDT'') = u @ ''/USDT''"
    by (rule suffixed_fix [OF up tr, of u "length u"]) simp
  have f3: "normalize_symbol (take (length u - 4) u @ ''/USDT'') = take (length u - 4) u @ ''/USDT''"
    by (rule suffixed_fix [OF up tr]) simp
  have f0: "CHR ''/'' \<in> set u \<Longrightarrow> endswith u ''USDT'' \<Longrightarrow> normalize_symbol u = u"
    by (rule normalize_fixpoint [OF up tr])
  have ns: "normalize_symbol s =
      (if CHR ''/'' \<in> set u \<and> endswith u ''USDT'' then u
       else if \<not> endswith u ''USDT''
            then (if CHR ''/'' \<in> set u then split_base u @ ''/USDT'' else u @ ''/USDT'')
            else take (length u - 4) u @ ''/USDT'')"
    using False by (auto simp: normalize_symbol_def u_def [symmetric] Let_def)
  show ?thesis
    unfolding ns using f0 f1 f2 f3 by auto
qed

section \<open>Properties of the ledger operations\<close>

subsection \<open>Closing\<close>

lemma metrics_sized:
  assumes "position_size pos \<noteq> 0" and "entry_price pos \<noteq> 0"
  shows "calculate_position_metrics (Some pos) fill (Some (position_size pos * r)) =
    Inr (slice_value pos fill r,
         slice_value pos fill r - slice_margin pos r,
         (if slice_margin pos r > 0
          then (slice_value pos fill r - slice_margin pos r) / slice_margin pos r * 100 else 0))"
  using assms
  by (simp add: calculate_position_metrics_def Let_def slice_value_def slice_margin_def
      directional_change_rate_def mult_ac)

lemma metrics_error:
  "position_size pos = 0 \<or> entry_price pos = 0 \<Longrightarrow>
   calculate_position_metrics (Some pos) fill sz = Inl ZeroDivisionError"
  by (auto simp: calculate_position_metrics_def Let_def)

lemma slippage_exit: "apply_slippage price (direction pos) ''EXIT'' = exit_fill pos price"
  by (simp add: apply_slippage_def exit_fill_def)

lemma exit_position_none:
  "current_position s = None \<Longrightarrow> exit_position s price reason r = (None, s)"
  by (simp add: exit_position_def)

lemma exit_position_error:
  assumes "current_position s = Some pos"
    and "position_size pos = 0 \<or> entry_price pos = 0"
  shows "exit_position s price reason r = (None, s)"
  using assms by (simp add: exit_position_def Let_def metrics_error)

lemma slice_value_zero: "slice_margin pos r = 0 \<Longrightarrow> slice_value pos fill r = 0"
  by (simp add: slice_value_def)

lemma exit_position_zero_margin:
  assumes "current_position s = Some pos"
    and "position_size pos \<noteq> 0" and "entry_price pos \<noteq> 0"
    and "invested_amount pos * r = 0"
  shows "exit_position s price reason r = (None, s)"
proof -
  have "slice_margin pos r = 0" using assms(4) by (simp add: slice_margin_def)
  then have "slice_value pos (exit_fill pos price) r = 0" by (rule slice_value_zero)
  then show ?thesis
    using assms
    by (simp add: exit_position_def Let_def slippage_exit metrics_sized)
qed

lemma exit_position_sized:
  assumes "current_position s = Some pos"
    and "position_size pos \<noteq> 0" and "entry_price pos \<noteq> 0"
    and "invested_amount pos * r \<noteq> 0"
  shows "exit_position s price reason r =
    (Some \<lparr>xi_symbol = symbol pos,
            xi_direction = direction pos,
            xi_entry_price = entry_price pos,
            xi_exit_price = exit_fill pos price,
            xi_original_exit_price = price,
            xi_position_size = position_size pos * r,
            xi_leverage = leverage pos,
            xi_invested_amount = invested_amount pos * r,
            xi_realized_pnl = slice_value pos (exit_fill pos price) r - slice_margin pos r
               - slice_value pos (exit_fill pos price) r * trading_fee_rate,
            xi_realized_pnl_percentage =
              ((slice_value pos (exit_fill pos price) r - slice_margin pos r
                 - slice_value pos (exit_fill pos price) r * trading_fee_rate)
               / (invested_amount pos * r)) * 100,
            xi_exit_reason = reason,
            xi_exit_fee = slice_value pos (exit_fill pos price) r * trading_fee_rate,
            xi_total_fees = total_fees_paid pos
               + slice_value pos (exit_fill pos price) r * trading_fee_rate,
            xi_partial_exit = (r < 1),
            xi_exit_ratio = r\<rparr>,
     \<lparr>current_balance = current_balance s + (slice_value pos (exit_fill pos price) r
          - slice_value pos (exit_fill pos price) r * trading_fee_rate),
      current_position =
        (if r < 1
         then Some (pos\<lparr>position_size := position_size pos * (1 - r),
                        invested_amount := invested_amount pos * (1 - r),
                        total_fees_paid := total_fees_paid pos
                          + slice_value pos (exit_fill pos price) r * trading_fee_rate,
                        partial_profit_taken :=
                          (if reason = ''Partial Take Profit'' then True
                           else partial_profit_taken pos)\<rparr>)
         else None),
      trades = trades s @
        [EXIT \<lparr>xt_symbol = symbol pos,
                xt_direction = direction pos,
                xt_price = exit_fill pos price,
                xt_size = position_size pos * r,
                xt_leverage = leverage pos,
                xt_realized_pnl = slice_value pos (exit_fill pos price) r - slice_margin pos r
                  - slice_value pos (exit_fill pos price) r * trading_fee_rate,
                xt_exit_reason = reason\<rparr>]\<rparr>)"
  using assms
  by (simp add: exit_position_def Let_def slippage_exit metrics_sized)

subsection \<open>Opening, switching and flipping\<close>

lemma slippage_enter_zero: "apply_slippage price dir ''ENTER'' = 0 \<longleftrightarrow> price = 0"
  by (simp add: apply_slippage_def slippage_rate_def)

lemma open_position_blocked:
  "current_balance s < 100 \<or> price = 0 \<Longrightarrow>
   open_position s symb dir price lev tgt stop = (False, s)"
  by (auto simp: open_position_def can_enter_position_def Let_def slippage_enter_zero)

lemma open_position_ok:
  assumes "100 \<le> current_balance s" and "price \<noteq> 0"
  shows "open_position s symb dir price lev tgt stop =
    (True,
     \<lparr>current_balance = current_balance s - current_balance s * 0.95,
      current_position = Some
        \<lparr>symbol = symb,
         direction = dir,
         entry_price = apply_slippage price dir ''ENTER'',
         original_entry_price = price,
         position_size =
           ((current_balance s * 0.95 - current_balance s * 0.95 * trading_fee_rate) * lev)
             / apply_slippage price dir ''ENTER'',
         leverage = lev,
         invested_amount = current_balance s * 0.95 - current_balance s * 0.95 * trading_fee_rate,
         target_price = tgt,
         stop_loss = stop,
         entry_fee = current_balance s * 0.95 * trading_fee_rate,
         highest_price = (if dir = ''LONG'' then apply_slippage price dir ''ENTER'' else 0),
         lowest_price = (if dir = ''SHORT'' then Finite (apply_slippage price dir ''ENTER'')
                         else Infinity),
         trailing_stop_price = None,
         partial_profit_taken = False,
         total_fees_paid = current_balance s * 0.95 * trading_fee_rate\<rparr>,
      trades = trades s @
        [ENTER \<lparr>et_symbol = symb,
                 et_direction = dir,
                 et_price = apply_slippage price dir ''ENTER'',
                 et_size =
                   ((current_balance s * 0.95 - current_balance s * 0.95 * trading_fee_rate) * lev)
                     / apply_slippage price dir ''ENTER'',
                 et_leverage = lev,
                 et_invested_amount =
                   current_balance s * 0.95 - current_balance s * 0.95 * trading_fee_rate,
                 et_target_price = tgt,
                 et_stop_loss = stop\<rparr>]\<rparr>)"
  using assms
  by (simp add: open_position_def can_enter_position_def Let_def slippage_enter_zero)

lemma open_position_fst:
  "fst (open_position s symb dir price lev tgt stop) \<longleftrightarrow> 100 \<le> current_balance s \<and> price \<noteq> 0"
  by (cases "100 \<le> current_balance s \<and> price \<noteq> 0")
     (auto simp: open_position_ok open_position_blocked)


lemma exit_position_failed:
  assumes "fst (exit_position s price reason r) = None"
  shows "exit_position s price reason r = (None, s)"
proof (cases "current_position s")
  case None
  then show ?thesis by (rule exit_position_none)
next
  case (Some pos)
  show ?thesis
  proof (cases "position_size pos = 0 \<or> entry_price pos = 0")
    case True
    with Some show ?thesis by (rule exit_position_error)
  next
    case False
    show ?thesis
    proof (cases "invested_amount pos * r = 0")
      case True
      with Some False show ?thesis by (simp add: exit_position_zero_margin)
    next
      case nz: False
      with Some False assms show ?thesis by (simp add: exit_position_sized)
    qed
  qed
qed

text \<open>Whether an exit fails does not depend on the price or on the reason.\<close>

lemma exit_position_fails_iff:
  "fst (exit_position s price reason r) = None \<longleftrightarrow>
     (case current_position s of
        None \<Rightarrow> True
      | Some pos \<Rightarrow> position_size pos = 0 \<or> entry_price pos = 0 \<or> invested_amount pos * r = 0)"
proof (cases "current_position s")
  case None
  then show ?thesis by (simp add: exit_position_none)
next
  case (Some pos)
  show ?thesis
  proof (cases "position_size pos = 0 \<or> entry_price pos = 0")
    case True
    with Some show ?thesis by (auto simp: exit_position_error)
  next
    case False
    with Some show ?thesis
      by (cases "invested_amount pos * r = 0")
         (simp_all add: exit_position_zero_margin exit_position_sized)
  qed
qed

lemma flip_position_unfold:
  "flip_position s dir price lev tgt stop =
     (case fst (exit_position s price ''Position Flip'' 1) of
        None \<Rightarrow> (False, snd (exit_position s price ''Position Flip'' 1))
      | Some info \<Rightarrow>
          open_position (snd (exit_position s price ''Position Flip'' 1))
            (normalize_symbol
               (case current_position (snd (exit_position s price ''Position Flip'' 1)) of
                  Some cur \<Rightarrow> symbol cur
                | None \<Rightarrow> xi_symbol info))
            dir price lev tgt stop)"
  by (simp add: flip_position.simps enter_position.simps split: option.split)

lemma enter_position_unfold:
  "enter_position s raw dir price lev tgt stop ff =
     (case current_position s of
        None \<Rightarrow> open_position s (normalize_symbol raw) dir price lev tgt stop
      | Some cur \<Rightarrow>
          if ff then open_position s (normalize_symbol raw) dir price lev tgt stop
          else if symbol cur = normalize_symbol raw \<and> direction cur = dir then (False, s)
          else if symbol cur = normalize_symbol raw
          then flip_position s dir price lev tgt stop
          else open_position (snd (exit_position s price ''Position Switch'' 1))
                 (normalize_symbol raw) dir price lev tgt stop)"
  by (simp add: enter_position.simps split: option.split)

text \<open>A full exit that succeeds clears the position and reports its symbol.\<close>

lemma exit_full_done:
  assumes "fst (exit_position s price reason 1) = Some info"
  shows "current_position (snd (exit_position s price reason 1)) = None
       \<and> (\<exists>pos. current_position s = Some pos \<and> xi_symbol info = symbol pos)"
proof (cases "current_position s")
  case None
  with assms show ?thesis by (simp add: exit_position_none)
next
  case (Some pos)
  have nf: "\<not> (position_size pos = 0 \<or> entry_price pos = 0 \<or> invested_amount pos * 1 = 0)"
    using assms Some exit_position_fails_iff [of s price reason 1] by auto
  with Some assms show ?thesis
    by (auto simp: exit_position_sized)
qed

lemma flip_position_same:
  assumes "current_position s = Some cur" and "symbol cur = normalize_symbol raw"
  shows "flip_position s dir price lev tgt stop =
     (if fst (exit_position s price ''Position Flip'' 1) = None then (False, s)
      else open_position (snd (exit_position s price ''Position Flip'' 1))
             (normalize_symbol raw) dir price lev tgt stop)"
proof (cases "fst (exit_position s price ''Position Flip'' 1)")
  case None
  then show ?thesis
    by (simp add: flip_position_unfold exit_position_failed)
next
  case (Some info)
  from exit_full_done [OF Some] assms
  have "current_position (snd (exit_position s price ''Position Flip'' 1)) = None"
    and "xi_symbol info = normalize_symbol raw" by auto
  with Some show ?thesis
    by (simp add: flip_position_unfold normalize_symbol_idem)
qed

subsection \<open>Evaluation of the examples\<close>

lemma normalize_X: "normalize_symbol ''X'' = ''X/USDT''"
  by code_simp

lemma normalize_x: "normalize_symbol ''x'' = ''X/USDT''"
  by code_simp



lemma worked_entry:
  "enter_position (initial_ledger 10000) ''X'' ''LONG'' 100 2 (Some 110) (Some 95) False
     = (True, worked_ledger)"
  by (simp add: enter_position_unfold initial_ledger_def open_position_ok normalize_X
      worked_ledger_def worked_position_def apply_slippage_def slippage_rate_def
      trading_fee_rate_def)





lemma worked_ledger_run:
  "worked_ledger = run_calls (initial_ledger 10000)
      [Enter ''X'' ''LONG'' 100 2 (Some 110) (Some 95) False]"
  by (simp add: run_calls_def worked_entry)

lemma worked_flip:
  "fst (enter_position worked_ledger ''X'' ''SHORT'' 110 3 None None False)"
proof -
  have p: "current_position worked_ledger = Some worked_position"
    by (simp add: worked_ledger_def)
  have y: "symbol worked_position = normalize_symbol ''X''"
    by (simp add: worked_position_def normalize_X)
  have nz: "position_size worked_position \<noteq> 0" "entry_price worked_position \<noteq> 0"
    "invested_amount worked_position * 1 \<noteq> 0"
    by (simp_all add: worked_position_def)
  have d: "direction worked_position \<noteq> ''SHORT''" by (simp add: worked_position_def)
  have "enter_position worked_ledger ''X'' ''SHORT'' 110 3 None None False
          = open_position (snd (exit_position worked_ledger 110 ''Position Flip'' 1))
              (normalize_symbol ''X'') ''SHORT'' 110 3 None None"
    using p y d
    by (simp add: enter_position_unfold flip_position_same [OF p y]
        exit_position_sized [OF p nz])
  moreover have "100 \<le> current_balance (snd (exit_position worked_ledger 110 ''Position Flip'' 1))"
    by (simp add: exit_position_sized [OF p nz])
       (simp add: worked_ledger_def worked_position_def
        slice_value_def slice_margin_def directional_change_rate_def exit_fill_def
        slippage_rate_def trading_fee_rate_def)
  ultimately show ?thesis by (simp add: open_position_fst)
qed

lemma worked_trailing:
  "trailing_stop_of (run_trailing worked_ledger [105, 103]) = Some 102.9"
  by (simp add: run_trailing_def update_trailing_stop_def worked_ledger_def worked_position_def
      trailing_stop_of_def trailing_stop_ratio_def)

subsection \<open>Exits and entries that differ only in the reason or the trade records\<close>

lemma open_position_same_balance:
  assumes "current_balance s1 = current_balance s2"
    and "current_position s1 = current_position s2"
  shows "fst (open_position s1 symb dir price lev tgt stop)
           = fst (open_position s2 symb dir price lev tgt stop)
       \<and> current_balance (snd (open_position s1 symb dir price lev tgt stop))
           = current_balance (snd (open_position s2 symb dir price lev tgt stop))
       \<and> current_position (snd (open_position s1 symb dir price lev tgt stop))
           = current_position (snd (open_position s2 symb dir price lev tgt stop))"
proof (cases "100 \<le> current_balance s1 \<and> price \<noteq> 0")
  case True
  with assms show ?thesis by (simp add: open_position_ok)
next
  case False
  with assms show ?thesis by (auto simp: open_position_blocked)
qed

lemma exit_full_reason:
  "current_balance (snd (exit_position s price r1 1))
     = current_balance (snd (exit_position s price r2 1))
   \<and> current_position (snd (exit_position s price r1 1))
     = current_position (snd (exit_position s price r2 1))
   \<and> (fst (exit_position s price r1 1) = None \<longleftrightarrow> fst (exit_position s price r2 1) = None)"
proof (cases "fst (exit_position s price r1 1) = None")
  case True
  then have "fst (exit_position s price r2 1) = None"
    by (simp add: exit_position_fails_iff)
  with True show ?thesis by (simp add: exit_position_failed)
next
  case False
  then have f2: "fst (exit_position s price r2 1) \<noteq> None"
    by (simp add: exit_position_fails_iff)
  from False obtain pos where p: "current_position s = Some pos"
    and nz: "position_size pos \<noteq> 0" "entry_price pos \<noteq> 0" "invested_amount pos * 1 \<noteq> 0"
    by (auto simp: exit_position_fails_iff split: option.splits)
  show ?thesis
    using False f2 by (simp add: exit_position_sized [OF p nz])
qed

section \<open>Invariants along call sequences\<close>

lemma enter_position_preserves:
  assumes "P s"
    and ex: "\<And>s1 reason. P s1 \<Longrightarrow> P (snd (exit_position s1 price reason 1))"
    and op: "\<And>s1 symb. P s1 \<Longrightarrow> P (snd (open_position s1 symb dir price lev tgt stop))"
  shows "P (snd (enter_position s raw dir price lev tgt stop ff))"
proof (cases "current_position s")
  case None
  with assms(1) op show ?thesis by (simp add: enter_position_unfold)
next
  case (Some cur)
  have f: "P (snd (flip_position s dir price lev tgt stop))"
  proof (cases "fst (exit_position s price ''Position Flip'' 1)")
    case None
    with ex [OF assms(1)] show ?thesis by (simp add: flip_position_unfold)
  next
    case (Some info)
    with op [OF ex [OF assms(1)]] show ?thesis by (simp add: flip_position_unfold)
  qed
  from Some assms(1) f op ex [OF assms(1)] op [OF ex [OF assms(1)]]
  show ?thesis by (simp add: enter_position_unfold)
qed

lemma update_trailing_stop_cases:
  "snd (update_trailing_stop s p) = s \<or>
   (\<exists>pos. current_position s = Some pos \<and>
      ((direction pos = ''LONG'' \<and> highest_price pos < p \<and>
        snd (update_trailing_stop s p) = s\<lparr>current_position := Some (pos\<lparr>
            highest_price := p,
            trailing_stop_price := Some (p * (1 - trailing_stop_ratio))\<rparr>)\<rparr>)
     \<or> (direction pos \<noteq> ''LONG'' \<and> less_watermark p (lowest_price pos) \<and>
        snd (update_trailing_stop s p) = s\<lparr>current_position := Some (pos\<lparr>
            lowest_price := Finite p,
            trailing_stop_price := Some (p * (1 + trailing_stop_ratio))\<rparr>)\<rparr>)))"
  by (auto simp: update_trailing_stop_def split: option.split)

subsection \<open>Positions keep a positive margin, a size and an entry price\<close>







subsection \<open>Balance and margin stay non-negative\<close>

lemma slice_value_nonneg:
  "0 \<le> slice_margin pos r \<Longrightarrow> 0 \<le> slice_value pos fill r"
  by (simp add: slice_value_def max_def)

lemma solvent_exit:
  assumes "solvent s" and "0 \<le> r"
  shows "solvent (snd (exit_position s price reason r))"
proof (cases "current_position s")
  case None
  with assms show ?thesis by (simp add: exit_position_none)
next
  case (Some pos)
  with assms have inv: "0 \<le> invested_amount pos" and bal: "0 \<le> current_balance s"
    by (simp_all add: solvent_def)
  show ?thesis
  proof (cases "position_size pos = 0 \<or> entry_price pos = 0")
    case True
    with assms show ?thesis by (simp add: exit_position_error [OF Some])
  next
    case False
    then have nz: "position_size pos \<noteq> 0" "entry_price pos \<noteq> 0" by simp_all
    show ?thesis
    proof (cases "invested_amount pos * r = 0")
      case True
      with assms show ?thesis by (simp add: exit_position_zero_margin [OF Some nz])
    next
      case nzm: False
      have "0 \<le> slice_margin pos r" using inv assms(2) by (simp add: slice_margin_def)
      then have v: "0 \<le> slice_value pos (exit_fill pos price) r"
        by (rule slice_value_nonneg)
      have "slice_value pos (exit_fill pos price) r * trading_fee_rate
              \<le> slice_value pos (exit_fill pos price) r"
        using v by (simp add: trading_fee_rate_def)
      with bal inv v show ?thesis
        by (simp add: exit_position_sized [OF Some nz nzm] solvent_def)
    qed
  qed
qed

lemma solvent_open:
  "solvent s \<Longrightarrow> solvent (snd (open_position s symb dir price lev tgt stop))"
proof (cases "100 \<le> current_balance s \<and> price \<noteq> 0")
  case True
  then show ?thesis
    by (simp add: open_position_ok solvent_def trading_fee_rate_def)
next
  case False
  assume "solvent s"
  with False show ?thesis by (auto simp: open_position_blocked)
qed

lemma solvent_trail: "solvent s \<Longrightarrow> solvent (snd (update_trailing_stop s p))"
  using update_trailing_stop_cases [of s p] by (auto simp: solvent_def)

lemma solvent_apply_call:
  "solvent s \<Longrightarrow> fraction_nonneg c \<Longrightarrow> solvent (apply_call s c)"
proof (cases c)
  case (Enter raw dir price lev tgt stop ff)
  assume "solvent s"
  have "solvent (snd (enter_position s raw dir price lev tgt stop ff))"
    by (rule enter_position_preserves [where P = solvent, OF \<open>solvent s\<close>])
       (simp_all add: solvent_exit solvent_open)
  with Enter show ?thesis by simp
next
  case (Exit price reason r)
  assume "solvent s" and "fraction_nonneg c"
  with Exit show ?thesis by (simp add: solvent_exit)
next
  case (Trail p)
  assume "solvent s"
  with Trail show ?thesis by (simp add: solvent_trail)
qed

lemma solvent_run_calls:
  "solvent s \<Longrightarrow> list_all fraction_nonneg cs \<Longrightarrow> solvent (run_calls s cs)"
  unfolding run_calls_def
  by (induction cs arbitrary: s) (simp_all add: solvent_apply_call)

subsection \<open>A trailing stop that is set sits at the ratio from the watermark\<close>

lemma trail_consistent_exit:
  "trail_consistent s \<Longrightarrow> trail_consistent (snd (exit_position s price reason r))"
proof (cases "fst (exit_position s price reason r) = None")
  case True
  assume "trail_consistent s"
  with True show ?thesis by (simp add: exit_position_failed)
next
  case False
  assume c: "trail_consistent s"
  from False obtain pos where p: "current_position s = Some pos"
    and nz: "position_size pos \<noteq> 0" "entry_price pos \<noteq> 0" "invested_amount pos * r \<noteq> 0"
    by (auto simp: exit_position_fails_iff split: option.splits)
  from c p show ?thesis
    by (auto simp: exit_position_sized [OF p nz] trail_consistent_def
        split: option.splits watermark.splits)
qed

lemma trail_consistent_open:
  "trail_consistent s \<Longrightarrow> trail_consistent (snd (open_position s symb dir price lev tgt stop))"
proof (cases "100 \<le> current_balance s \<and> price \<noteq> 0")
  case True
  then show ?thesis by (simp add: open_position_ok trail_consistent_def)
next
  case False
  assume "trail_consistent s"
  with False show ?thesis by (auto simp: open_position_blocked)
qed

lemma trail_consistent_trail:
  "trail_consistent s \<Longrightarrow> trail_consistent (snd (update_trailing_stop s p))"
  by (auto simp: update_trailing_stop_def trail_consistent_def
      split: option.splits watermark.splits)

lemma trail_consistent_apply_call:
  "trail_consistent s \<Longrightarrow> trail_consistent (apply_call s c)"
proof (cases c)
  case (Enter raw dir price lev tgt stop ff)
  assume "trail_consistent s"
  have "trail_consistent (snd (enter_position s raw dir price lev tgt stop ff))"
    by (rule enter_position_preserves [where P = trail_consistent, OF \<open>trail_consistent s\<close>])
       (simp_all add: trail_consistent_exit trail_consistent_open)
  with Enter show ?thesis by simp
next
  case (Exit price reason r)
  assume "trail_consistent s"
  with Exit show ?thesis by (simp add: trail_consistent_exit)
next
  case (Trail p)
  assume "trail_consistent s"
  with Trail show ?thesis by (simp add: trail_consistent_trail)
qed

lemma trail_consistent_run_calls:
  "trail_consistent s \<Longrightarrow> trail_consistent (run_calls s cs)"
  unfolding run_calls_def
  by (induction cs arbitrary: s) (simp_all add: trail_consistent_apply_call)

lemma trail_consistent_initial: "trail_consistent (initial_ledger b)"
  by (simp add: trail_consistent_def initial_ledger_def)

subsection \<open>One update, then many\<close>

lemma side_of_trail: "side_of (snd (update_trailing_stop s p)) = side_of s"
  by (auto simp: update_trailing_stop_def side_of_def split: option.splits)

lemma trail_step_long:
  assumes "trail_consistent s" and "side_of s = Some ''LONG''"
    and "trailing_stop_of s = Some t"
  shows "\<exists>t'. trailing_stop_of (snd (update_trailing_stop s p)) = Some t' \<and> t \<le> t'"
proof -
  from assms obtain pos where pos: "current_position s = Some pos"
    and d: "direction pos = ''LONG''"
    and tp: "trailing_stop_price pos = Some t"
    by (auto simp: side_of_def trailing_stop_of_def split: option.splits)
  from assms(1) pos d tp have c: "t = highest_price pos * (1 - trailing_stop_ratio)"
    by (simp add: trail_consistent_def)
  show ?thesis
  proof (cases "highest_price pos < p")
    case True
    then have "t \<le> p * (1 - trailing_stop_ratio)"
      unfolding c by (simp add: trailing_stop_ratio_def)
    with True pos d show ?thesis
      by (simp add: update_trailing_stop_def trailing_stop_of_def)
  next
    case False
    with pos d tp show ?thesis
      by (simp add: update_trailing_stop_def trailing_stop_of_def)
  qed
qed

lemma trail_step_short:
  assumes "trail_consistent s" and "side_of s = Some d" and "d \<noteq> ''LONG''"
    and "trailing_stop_of s = Some t"
  shows "\<exists>t'. trailing_stop_of (snd (update_trailing_stop s p)) = Some t' \<and> t' \<le> t"
proof -
  from assms obtain pos where pos: "current_position s = Some pos"
    and d: "direction pos \<noteq> ''LONG''"
    and tp: "trailing_stop_price pos = Some t"
    by (auto simp: side_of_def trailing_stop_of_def split: option.splits)
  from assms(1) pos d tp obtain l where l: "lowest_price pos = Finite l"
    and c: "t = l * (1 + trailing_stop_ratio)"
    by (auto simp: trail_consistent_def split: watermark.splits)
  show ?thesis
  proof (cases "p < l")
    case True
    then have "p * (1 + trailing_stop_ratio) \<le> t"
      unfolding c by (simp add: trailing_stop_ratio_def)
    with True pos d l show ?thesis
      by (simp add: update_trailing_stop_def trailing_stop_of_def)
  next
    case False
    with pos d tp l show ?thesis
      by (simp add: update_trailing_stop_def trailing_stop_of_def)
  qed
qed

lemma run_trailing_Cons:
  "run_trailing s (p # ps) = run_trailing (snd (update_trailing_stop s p)) ps"
  by (simp add: run_trailing_def)

lemma run_trailing_append:
  "run_trailing s (ps @ qs) = run_trailing (run_trailing s ps) qs"
  by (simp add: run_trailing_def)

lemma trail_consistent_run_trailing:
  "trail_consistent s \<Longrightarrow> trail_consistent (run_trailing s ps)"
  by (induction ps arbitrary: s) (simp_all add: run_trailing_def trail_consistent_trail)

lemma side_of_run_trailing: "side_of (run_trailing s ps) = side_of s"
  by (induction ps arbitrary: s) (simp_all add: run_trailing_def side_of_trail)

lemma trail_run_long:
  assumes "trail_consistent s" and "side_of s = Some ''LONG''"
    and "trailing_stop_of s = Some t"
  shows "\<exists>t'. trailing_stop_of (run_trailing s qs) = Some t' \<and> t \<le> t'"
  using assms
proof (induction qs arbitrary: s t)
  case Nil
  then show ?case by (simp add: run_trailing_def)
next
  case (Cons q qs)
  from trail_step_long [OF Cons.prems, of q] obtain t1
    where t1: "trailing_stop_of (snd (update_trailing_stop s q)) = Some t1" and le: "t \<le> t1"
    by blast
  have c: "trail_consistent (snd (update_trailing_stop s q))"
    using Cons.prems(1) by (rule trail_consistent_trail)
  have d: "side_of (snd (update_trailing_stop s q)) = Some ''LONG''"
    using Cons.prems(2) by (simp add: side_of_trail)
  from Cons.IH [OF c d t1] obtain t' where
    "trailing_stop_of (run_trailing (snd (update_trailing_stop s q)) qs) = Some t'" "t1 \<le> t'"
    by blast
  with le show ?case by (auto simp: run_trailing_Cons)
qed

lemma trail_run_short:
  assumes "trail_consistent s" and "side_of s = Some d" and "d \<noteq> ''LONG''"
    and "trailing_stop_of s = Some t"
  shows "\<exists>t'. trailing_stop_of (run_trailing s qs) = Some t' \<and> t' \<le> t"
  using assms
proof (induction qs arbitrary: s t)
  case Nil
  then show ?case by (simp add: run_trailing_def)
next
  case (Cons q qs)
  from trail_step_short [OF Cons.prems, of q] obtain t1
    where t1: "trailing_stop_of (snd (update_trailing_stop s q)) = Some t1" and le: "t1 \<le> t"
    by blast
  have c: "trail_consistent (snd (update_trailing_stop s q))"
    using Cons.prems(1) by (rule trail_consistent_trail)
  have d: "side_of (snd (update_trailing_stop s q)) = Some d"
    using Cons.prems(2) by (simp add: side_of_trail)
  from Cons.IH [OF c d Cons.prems(3) t1] obtain t' where
    "trailing_stop_of (run_trailing (snd (update_trailing_stop s q)) qs) = Some t'" "t' \<le> t1"
    by blast
  with le show ?case by (auto simp: run_trailing_Cons)
qed

section \<open>Properties of the crossover detectors\<close>

lemma recent5_last_two:
  assumes "xs = ys @ [Some a, Some b]" and "5 \<le> length xs"
  shows "\<exists>zs. recent5 xs = zs @ [a, b]"
proof -
  have "length xs - 5 \<le> length ys" using assms by simp
  then have "drop (length xs - 5) xs = drop (length xs - 5) ys @ [Some a, Some b]"
    using assms(1) by simp
  then show ?thesis by (simp add: recent5_def)
qed

lemma recent5_nth:
  assumes "xs = ys @ [Some a, Some b]" and "5 \<le> length xs"
  shows "last (recent5 xs) = b" and "recent5 xs ! (length (recent5 xs) - 2) = a"
proof -
  from recent5_last_two [OF assms] obtain zs where z: "recent5 xs = zs @ [a, b]" by blast
  show "last (recent5 xs) = b" by (simp add: z)
  show "recent5 xs ! (length (recent5 xs) - 2) = a" by (simp add: z nth_append)
qed

lemma macd_crossover_eq:
  assumes "fast = fs @ [Some f1, Some f2]" and "slow = ss @ [Some s1, Some s2]"
    and "5 \<le> length fast" and "5 \<le> length slow"
    and "4 \<le> length (recent5 fast)" and "4 \<le> length (recent5 slow)"
  shows "detect_real_macd_crossover fast slow symb =
     (if f1 - s1 \<le> 0 \<and> f2 - s2 > 0
      then [\<lparr>sg_symbol = symb, sg_type = ''MACD_BULLISH_CROSS'',
             sg_strength = (if \<bar>f2 - s2\<bar> > 0.001 then ''HIGH'' else ''MEDIUM''),
             sg_value = \<bar>f2 - s2\<bar>, sg_direction = ''BUY'',
             sg_priority = (if \<bar>f2 - s2\<bar> > 0.001 then 3 else 2)\<rparr>]
      else if f1 - s1 \<ge> 0 \<and> f2 - s2 < 0
      then [\<lparr>sg_symbol = symb, sg_type = ''MACD_BEARISH_CROSS'',
             sg_strength = (if \<bar>f2 - s2\<bar> > 0.001 then ''HIGH'' else ''MEDIUM''),
             sg_value = \<bar>f2 - s2\<bar>, sg_direction = ''SELL'',
             sg_priority = (if \<bar>f2 - s2\<bar> > 0.001 then 3 else 2)\<rparr>]
      else [])"
  using assms(3-6)
  by (simp add: detect_real_macd_crossover_def Let_def
      recent5_nth [OF assms(1,3)] recent5_nth [OF assms(2,4)])

lemma ma_crossover_eq:
  assumes "fast = fs @ [Some f1, Some f2]" and "slow = ss @ [Some s1, Some s2]"
    and "5 \<le> length fast" and "5 \<le> length slow"
    and "4 \<le> length (recent5 fast)" and "4 \<le> length (recent5 slow)"
  shows "detect_real_ma_crossover fast slow symb =
     (if f1 - s1 \<le> 0 \<and> f2 - s2 > 0
      then (if s2 = 0 then []
            else [\<lparr>sg_symbol = symb, sg_type = ''GOLDEN_CROSS'',
                   sg_strength = ma_strength (\<bar>f2 - s2\<bar> / s2 * 100),
                   sg_value = \<bar>f2 - s2\<bar> / s2 * 100, sg_direction = ''BUY'',
                   sg_priority =
                     (if ma_strength (\<bar>f2 - s2\<bar> / s2 * 100) = ''VERY_HIGH'' then 4 else 3)\<rparr>])
      else if f1 - s1 \<ge> 0 \<and> f2 - s2 < 0
      then (if s2 = 0 then []
            else [\<lparr>sg_symbol = symb, sg_type = ''DEAD_CROSS'',
                   sg_strength = ma_strength (\<bar>f2 - s2\<bar> / s2 * 100),
                   sg_value = \<bar>f2 - s2\<bar> / s2 * 100, sg_direction = ''SELL'',
                   sg_priority =
                     (if ma_strength (\<bar>f2 - s2\<bar> / s2 * 100) = ''VERY_HIGH'' then 4 else 3)\<rparr>])
      else [])"
  using assms(3-6)
  by (simp add: detect_real_ma_crossover_def Let_def
      recent5_nth [OF assms(1,3)] recent5_nth [OF assms(2,4)])

section \<open>Calls in two parts\<close>



section \<open>The claims\<close>

subsection \<open>C1: what a failed entry leaves behind\<close>




subsection \<open>C2: the accounting of an exit\<close>




subsection \<open>C3: the accounting of a fresh entry\<close>

text \<open>
  C3. On a ledger with no open position \<open>enter_position\<close> succeeds exactly when the
  balance is at least 100 and the requested price is not zero. When it succeeds, the
  position is filled at the requested price times \<open>1 + slippage_rate\<close> for LONG and
  times \<open>1 - slippage_rate\<close> otherwise; available capital is 0.95 of the balance, the
  entry fee is available capital times the fee rate, the invested margin is available
  capital minus the fee, the size is margin times leverage over the fill price, and the
  balance goes down by the whole available capital. On the worked example of the
  specification (balance 10000, LONG at 100, leverage 2) the ledger after the call is
  \<open>worked_ledger\<close>: fill 100.1, fee 3.8, margin 9496.2, size 9496.2 * 2 / 100.1,
  balance 500.
\<close>

theorem enter_fresh_accounting:
  assumes "current_position s = None"
  shows "(fst (enter_position s raw dir price lev tgt stop ff)
            \<longleftrightarrow> 100 \<le> current_balance s \<and> price \<noteq> 0)
       \<and> (fst (enter_position s raw dir price lev tgt stop ff) \<longrightarrow>
            (\<exists>pos. current_position (snd (enter_position s raw dir price lev tgt stop ff)) = Some pos
               \<and> symbol pos = normalize_symbol raw
               \<and> direction pos = dir
               \<and> original_entry_price pos = price
               \<and> entry_price pos =
                    (if dir = ''LONG'' then price * (1 + slippage_rate)
                     else price * (1 - slippage_rate))
               \<and> entry_fee pos = (current_balance s * 0.95) * trading_fee_rate
               \<and> invested_amount pos = current_balance s * 0.95 - entry_fee pos
               \<and> position_size pos = invested_amount pos * lev / entry_price pos
               \<and> leverage pos = lev)
            \<and> current_balance (snd (enter_position s raw dir price lev tgt stop ff))
                 = current_balance s - current_balance s * 0.95)
       \<and> enter_position (initial_ledger 10000) ''X'' ''LONG'' 100 2 (Some 110) (Some 95) False
            = (True, worked_ledger)"
proof -
  have e: "enter_position s raw dir price lev tgt stop ff
             = open_position s (normalize_symbol raw) dir price lev tgt stop"
    using assms by (simp add: enter_position_unfold)
  have a: "fst (enter_position s raw dir price lev tgt stop ff)
            \<longleftrightarrow> 100 \<le> current_balance s \<and> price \<noteq> 0"
    by (simp add: e open_position_fst)
  have b: "\<exists>pos. current_position (snd (enter_position s raw dir price lev tgt stop ff)) = Some pos
               \<and> symbol pos = normalize_symbol raw
               \<and> direction pos = dir
               \<and> original_entry_price pos = price
               \<and> entry_price pos =
                    (if dir = ''LONG'' then price * (1 + slippage_rate)
                     else price * (1 - slippage_rate))
               \<and> entry_fee pos = (current_balance s * 0.95) * trading_fee_rate
               \<and> invested_amount pos = current_balance s * 0.95 - entry_fee pos
               \<and> position_size pos = invested_amount pos * lev / entry_price pos
               \<and> leverage pos = lev"
    if "100 \<le> current_balance s" and "price \<noteq> 0"
    using that by (simp add: e open_position_ok apply_slippage_def)
  have c: "current_balance (snd (enter_position s raw dir price lev tgt stop ff))
             = current_balance s - current_balance s * 0.95"
    if "100 \<le> current_balance s" and "price \<noteq> 0"
    using that by (simp add: e open_position_ok)
  from a b c worked_entry show ?thesis by blast
qed

theorem enter_fresh_accounting_witness:
  "current_position (initial_ledger 10000) = None
   \<and> fst (enter_position (initial_ledger 10000) ''X'' ''LONG'' 100 2 (Some 110) (Some 95) False)
   \<and> (\<exists>pos. current_position
                (snd (enter_position (initial_ledger 10000) ''X'' ''LONG'' 100 2 (Some 110) (Some 95) False))
                = Some pos
          \<and> entry_price pos = 100.1
          \<and> entry_fee pos = 3.8
          \<and> invested_amount pos = 9496.2
          \<and> position_size pos = 9496.2 * 2 / 100.1)
   \<and> current_balance
        (snd (enter_position (initial_ledger 10000) ''X'' ''LONG'' 100 2 (Some 110) (Some 95) False))
        = 500"
proof -
  have n: "current_position (initial_ledger 10000) = None"
    by (simp add: initial_ledger_def)
  have b: "current_balance (initial_ledger 10000) = 10000"
    by (simp add: initial_ledger_def)
  from enter_fresh_accounting [OF n, of "''X''" "''LONG''" 100 2 "Some 110" "Some 95" False]
  show ?thesis
    using n by (simp add: b slippage_rate_def trading_fee_rate_def worked_ledger_def
        worked_position_def)
qed

subsection \<open>C4: the trailing stop only ratchets\<close>

text \<open>
  C4. Take any ledger reached from a new portfolio by any calls, with a position open,
  and any list of prices fed to \<open>update_trailing_stop\<close>, in any order. For a LONG
  position, a trailing stop \<open>t\<close> that is set after some of the calls is still set
  after any further calls, at a price \<open>t'\<close> with \<open>t \<le> t'\<close>; for a SHORT position,
  at a price \<open>t'\<close> with \<open>t' \<le> t\<close>.
\<close>

theorem trailing_stop_ratchets:
  assumes "s = run_calls (initial_ledger b) cs"
    and "current_position s = Some pos"
    and "trailing_stop_of (run_trailing s ps) = Some t"
  shows "(direction pos = ''LONG'' \<longrightarrow>
            (\<exists>t'. trailing_stop_of (run_trailing s (ps @ qs)) = Some t' \<and> t \<le> t'))
       \<and> (direction pos = ''SHORT'' \<longrightarrow>
            (\<exists>t'. trailing_stop_of (run_trailing s (ps @ qs)) = Some t' \<and> t' \<le> t))"
proof -
  have "trail_consistent s"
    unfolding assms(1) by (rule trail_consistent_run_calls [OF trail_consistent_initial])
  then have c: "trail_consistent (run_trailing s ps)"
    by (rule trail_consistent_run_trailing)
  have "side_of s = Some (direction pos)"
    using assms(2) by (simp add: side_of_def)
  then have d: "side_of (run_trailing s ps) = Some (direction pos)"
    by (simp add: side_of_run_trailing)
  show ?thesis
  proof (intro conjI impI)
    assume "direction pos = ''LONG''"
    with d have "side_of (run_trailing s ps) = Some ''LONG''" by simp
    from trail_run_long [OF c this assms(3), of qs]
    show "\<exists>t'. trailing_stop_of (run_trailing s (ps @ qs)) = Some t' \<and> t \<le> t'"
      by (simp add: run_trailing_append)
  next
    assume "direction pos = ''SHORT''"
    then have "direction pos \<noteq> ''LONG''" by simp
    from trail_run_short [OF c d this assms(3), of qs]
    show "\<exists>t'. trailing_stop_of (run_trailing s (ps @ qs)) = Some t' \<and> t' \<le> t"
      by (simp add: run_trailing_append)
  qed
qed

theorem trailing_stop_ratchets_witness:
  "worked_ledger = run_calls (initial_ledger 10000)
      [Enter ''X'' ''LONG'' 100 2 (Some 110) (Some 95) False]
   \<and> current_position worked_ledger = Some worked_position
   \<and> direction worked_position = ''LONG''
   \<and> trailing_stop_of (run_trailing worked_ledger [105, 103]) = Some 102.9
   \<and> (\<exists>t'. trailing_stop_of (run_trailing worked_ledger ([105, 103] @ [101, 120])) = Some t'
         \<and> 102.9 \<le> t')"
proof -
  have p: "current_position worked_ledger = Some worked_position"
    by (simp add: worked_ledger_def)
  have d: "direction worked_position = ''LONG''" by (simp add: worked_position_def)
  from trailing_stop_ratchets [OF worked_ledger_run p worked_trailing, of "[101, 120]"] d
  have "\<exists>t'. trailing_stop_of (run_trailing worked_ledger ([105, 103] @ [101, 120])) = Some t'
         \<and> 102.9 \<le> t'"
    by blast
  with worked_ledger_run p d worked_trailing show ?thesis by (intro conjI)
qed

subsection \<open>C5: entering the position already held\<close>

text \<open>
  C5, as stated, fails. The route \<^verbatim>\<open>POST /position/flip\<close> of main.py calls
  \<open>enter_position\<close> with \<^verbatim>\<open>force_flip=True\<close> and a side the caller chooses. On
  \<open>worked_ledger\<close>, which holds a LONG position on X/USDT, a LONG entry on X with
  \<^verbatim>\<open>force_flip=True\<close> returns \<open>True\<close>, takes 475 of the 500 in cash, writes a second
  ENTER record and replaces the position.
\<close>

theorem enter_same_side_forced:
  "current_position worked_ledger = Some worked_position
   \<and> symbol worked_position = normalize_symbol ''X''
   \<and> direction worked_position = ''LONG''
   \<and> fst (enter_position worked_ledger ''X'' ''LONG'' 100 2 None None True)
   \<and> current_balance worked_ledger = 500
   \<and> current_balance (snd (enter_position worked_ledger ''X'' ''LONG'' 100 2 None None True)) = 25
   \<and> current_position (snd (enter_position worked_ledger ''X'' ''LONG'' 100 2 None None True))
       \<noteq> current_position worked_ledger
   \<and> length (trades (snd (enter_position worked_ledger ''X'' ''LONG'' 100 2 None None True))) = 2"
  by (simp add: enter_position_unfold normalize_X open_position_ok worked_ledger_def
      worked_position_def apply_slippage_def slippage_rate_def trading_fee_rate_def)

text \<open>
  C5, amended. For every ledger with an open position and every \<open>enter_position\<close> call
  with a symbol that normalises to the position's symbol and with the position's side:
  without \<^verbatim>\<open>force_flip\<close> (the default) the call returns \<open>False\<close> and the ledger is as
  it was, balance, position and trade records; with \<^verbatim>\<open>force_flip\<close> the test is
  skipped and the call is a fresh entry on the cash at hand: it succeeds exactly when
  the balance is at least 100 and the price is not zero, then takes 0.95 of the balance,
  replaces the position without closing it and appends one ENTER record; when it does
  not succeed the ledger is as it was.
\<close>

theorem enter_same_side_guard:
  assumes "current_position s = Some cur"
    and "symbol cur = normalize_symbol raw"
    and "direction cur = dir"
  shows "enter_position s raw dir price lev tgt stop False = (False, s)
       \<and> (fst (enter_position s raw dir price lev tgt stop True)
            \<longleftrightarrow> 100 \<le> current_balance s \<and> price \<noteq> 0)
       \<and> (fst (enter_position s raw dir price lev tgt stop True) \<longrightarrow>
            current_balance (snd (enter_position s raw dir price lev tgt stop True))
              = current_balance s - current_balance s * 0.95
          \<and> (\<exists>pos. current_position (snd (enter_position s raw dir price lev tgt stop True))
                       = Some pos
                \<and> symbol pos = symbol cur \<and> direction pos = dir
                \<and> entry_price pos = apply_slippage price dir ''ENTER''
                \<and> invested_amount pos
                    = current_balance s * 0.95 - current_balance s * 0.95 * trading_fee_rate
                \<and> position_size pos = invested_amount pos * lev / entry_price pos
                \<and> trailing_stop_price pos = None)
          \<and> (\<exists>rec. trades (snd (enter_position s raw dir price lev tgt stop True))
                       = trades s @ [ENTER rec]))
       \<and> (\<not> fst (enter_position s raw dir price lev tgt stop True) \<longrightarrow>
            snd (enter_position s raw dir price lev tgt stop True) = s)"
proof -
  have f: "enter_position s raw dir price lev tgt stop False = (False, s)"
    using assms by (simp add: enter_position_unfold)
  have t: "enter_position s raw dir price lev tgt stop True
             = open_position s (normalize_symbol raw) dir price lev tgt stop"
    using assms by (simp add: enter_position_unfold)
  show ?thesis
  proof (cases "100 \<le> current_balance s \<and> price \<noteq> 0")
    case True
    with f assms(2) show ?thesis
      unfolding t by (simp add: open_position_ok)
  next
    case False
    then have "open_position s (normalize_symbol raw) dir price lev tgt stop = (False, s)"
      by (auto simp: open_position_blocked)
    with f False show ?thesis unfolding t by auto
  qed
qed

theorem enter_same_side_guard_witness:
  "current_position worked_ledger = Some worked_position
   \<and> symbol worked_position = normalize_symbol ''x''
   \<and> direction worked_position = ''LONG''
   \<and> enter_position worked_ledger ''x'' ''LONG'' 105 3 None None False = (False, worked_ledger)
   \<and> 100 \<le> current_balance worked_ledger \<and> (105::real) \<noteq> 0
   \<and> fst (enter_position worked_ledger ''x'' ''LONG'' 105 3 None None True)
   \<and> current_balance (snd (enter_position worked_ledger ''x'' ''LONG'' 105 3 None None True)) = 25"
proof -
  have p: "current_position worked_ledger = Some worked_position"
    by (simp add: worked_ledger_def)
  have y: "symbol worked_position = normalize_symbol ''x''"
    by (simp add: worked_position_def normalize_x)
  have d: "direction worked_position = ''LONG''"
    by (simp add: worked_position_def)
  have b: "current_balance worked_ledger = 500" by (simp add: worked_ledger_def)
  note g = enter_same_side_guard [OF p y d, of 105 3 None None]
  from g have n: "enter_position worked_ledger ''x'' ''LONG'' 105 3 None None False
                    = (False, worked_ledger)"
    by (rule conjunct1)
  from g b have s: "fst (enter_position worked_ledger ''x'' ''LONG'' 105 3 None None True)"
    by simp
  with g b have c: "current_balance
      (snd (enter_position worked_ledger ''x'' ''LONG'' 105 3 None None True)) = 25"
    by simp
  have h: "100 \<le> current_balance worked_ledger" and k: "(105::real) \<noteq> 0"
    by (simp_all add: b)
  from p y d n h k s c show ?thesis by (intro conjI)
qed

subsection \<open>C6: a flip is a close followed by an open\<close>

text \<open>
  C6, as stated, fails. The route \<^verbatim>\<open>POST /position/flip\<close> of main.py makes the
  opposite-side call with \<^verbatim>\<open>force_flip=True\<close>, and then nothing is closed. On
  \<open>worked_ledger\<close> (LONG on X/USDT, 500 in cash) a SHORT entry on X at 110 with
  \<^verbatim>\<open>force_flip=True\<close> leaves 25 in cash and two ENTER records; a full exit at 110
  followed by the same entry leaves about 592.46.
\<close>

theorem flip_forced_closes_nothing:
  "current_position worked_ledger = Some worked_position
   \<and> symbol worked_position = normalize_symbol ''X''
   \<and> direction worked_position \<noteq> ''SHORT''
   \<and> current_balance
        (snd (enter_position worked_ledger ''X'' ''SHORT'' 110 3 None None True)) = 25
   \<and> length (trades (snd (enter_position worked_ledger ''X'' ''SHORT'' 110 3 None None True)))
       = 2
   \<and> current_balance
        (snd (enter_position (snd (exit_position worked_ledger 110 ''Manual Exit'' 1))
                ''X'' ''SHORT'' 110 3 None None True))
       = 601715003 / 1015625"
  by (simp add: enter_position_unfold normalize_X open_position_def can_enter_position_def
      exit_position_def calculate_position_metrics_def worked_ledger_def worked_position_def
      apply_slippage_def slippage_rate_def trading_fee_rate_def Let_def)

text \<open>
  C6, amended. Take a ledger with an open position \<open>cur\<close> and an \<open>enter_position\<close>
  call without \<^verbatim>\<open>force_flip\<close> on the same instrument and the other side at price
  \<open>p\<close>. The call returns the same flag and ends on the same balance and the same
  position as a full \<open>exit_position\<close> at \<open>p\<close>, for any exit reason, followed by
  \<open>enter_position\<close> at \<open>p\<close> with the same arguments. If the position can be closed
  (its size, entry price and margin are not zero) the call first credits the close,
  \<open>close_credit cur p\<close>, and appends an EXIT record with the reason ``Position
  Flip''; it succeeds exactly when the balance after the close is at least 100 and
  \<open>p\<close> is not zero, and then takes 0.95 of that balance, opens a position on the new
  side sized from it and appends an ENTER record after the EXIT record; when it does not
  succeed the old position stays closed. If the position cannot be closed the call
  returns \<open>False\<close> and the ledger is as it was.
\<close>

theorem flip_closes_then_opens:
  assumes "current_position s = Some cur"
    and "symbol cur = normalize_symbol raw"
    and "direction cur \<noteq> dir"
  shows "fst (enter_position s raw dir price lev tgt stop False)
           = fst (enter_position (snd (exit_position s price reason 1))
                    raw dir price lev tgt stop False)
       \<and> current_balance (snd (enter_position s raw dir price lev tgt stop False))
           = current_balance (snd (enter_position (snd (exit_position s price reason 1))
                                     raw dir price lev tgt stop False))
       \<and> current_position (snd (enter_position s raw dir price lev tgt stop False))
           = current_position (snd (enter_position (snd (exit_position s price reason 1))
                                      raw dir price lev tgt stop False))
       \<and> enter_position s raw dir price lev tgt stop False
           = enter_position (snd (exit_position s price ''Position Flip'' 1))
               raw dir price lev tgt stop False
       \<and> (position_size cur = 0 \<or> entry_price cur = 0 \<or> invested_amount cur = 0 \<longrightarrow>
            enter_position s raw dir price lev tgt stop False = (False, s))
       \<and> (position_size cur \<noteq> 0 \<and> entry_price cur \<noteq> 0 \<and> invested_amount cur \<noteq> 0 \<longrightarrow>
            (fst (enter_position s raw dir price lev tgt stop False)
               \<longleftrightarrow> 100 \<le> current_balance s + close_credit cur price \<and> price \<noteq> 0)
          \<and> (fst (enter_position s raw dir price lev tgt stop False) \<longrightarrow>
                current_balance (snd (enter_position s raw dir price lev tgt stop False))
                  = (current_balance s + close_credit cur price)
                    - (current_balance s + close_credit cur price) * 0.95
              \<and> (\<exists>pos. current_position (snd (enter_position s raw dir price lev tgt stop False))
                           = Some pos
                    \<and> symbol pos = symbol cur \<and> direction pos = dir
                    \<and> entry_price pos = apply_slippage price dir ''ENTER''
                    \<and> invested_amount pos
                        = (current_balance s + close_credit cur price) * 0.95
                          - (current_balance s + close_credit cur price) * 0.95 * trading_fee_rate
                    \<and> position_size pos = invested_amount pos * lev / entry_price pos)
              \<and> (\<exists>x e. trades (snd (enter_position s raw dir price lev tgt stop False))
                           = trades s @ [EXIT x, ENTER e]
                    \<and> xt_exit_reason x = ''Position Flip''
                    \<and> xt_direction x = direction cur
                    \<and> xt_price x = exit_fill cur price
                    \<and> xt_size x = position_size cur
                    \<and> xt_realized_pnl x = close_credit cur price - invested_amount cur
                    \<and> et_direction e = dir
                    \<and> et_price e = apply_slippage price dir ''ENTER''))
          \<and> (\<not> fst (enter_position s raw dir price lev tgt stop False) \<longrightarrow>
                current_balance (snd (enter_position s raw dir price lev tgt stop False))
                  = current_balance s + close_credit cur price
              \<and> current_position (snd (enter_position s raw dir price lev tgt stop False)) = None
              \<and> (\<exists>x. trades (snd (enter_position s raw dir price lev tgt stop False))
                         = trades s @ [EXIT x]
                    \<and> xt_exit_reason x = ''Position Flip'')))"
proof -
  let ?f = "exit_position s price ''Position Flip'' 1"
  let ?m = "exit_position s price reason 1"
  have flip: "enter_position s raw dir price lev tgt stop False =
      (if fst ?f = None then (False, s)
       else open_position (snd ?f) (normalize_symbol raw) dir price lev tgt stop)"
    using assms by (simp add: enter_position_unfold flip_position_same [OF assms(1,2)])
  have same: "fst (enter_position s raw dir price lev tgt stop False)
           = fst (enter_position (snd ?m) raw dir price lev tgt stop False)
       \<and> current_balance (snd (enter_position s raw dir price lev tgt stop False))
           = current_balance (snd (enter_position (snd ?m) raw dir price lev tgt stop False))
       \<and> current_position (snd (enter_position s raw dir price lev tgt stop False))
           = current_position (snd (enter_position (snd ?m) raw dir price lev tgt stop False))
       \<and> enter_position s raw dir price lev tgt stop False
           = enter_position (snd ?f) raw dir price lev tgt stop False"
  proof (cases "fst ?f = None")
    case True
    then have "fst ?m = None" by (simp add: exit_position_fails_iff)
    then have "snd ?m = s" by (simp add: exit_position_failed)
    moreover from True have "snd ?f = s" by (simp add: exit_position_failed)
    ultimately show ?thesis by simp
  next
    case False
    then obtain info where i: "fst ?f = Some info" by auto
    from False have "fst ?m \<noteq> None" by (simp add: exit_position_fails_iff)
    then obtain info' where i': "fst ?m = Some info'" by auto
    from exit_full_done [OF i] have nf: "current_position (snd ?f) = None" by simp
    from exit_full_done [OF i'] have nm: "current_position (snd ?m) = None" by simp
    have ef: "enter_position (snd ?f) raw dir price lev tgt stop False
                = open_position (snd ?f) (normalize_symbol raw) dir price lev tgt stop"
      using nf by (simp add: enter_position_unfold)
    have em: "enter_position (snd ?m) raw dir price lev tgt stop False
                = open_position (snd ?m) (normalize_symbol raw) dir price lev tgt stop"
      using nm by (simp add: enter_position_unfold)
    have b: "current_balance (snd ?f) = current_balance (snd ?m)"
      using exit_full_reason [of s price "''Position Flip''" reason] by simp
    have p: "current_position (snd ?f) = current_position (snd ?m)"
      using nf nm by simp
    from open_position_same_balance [OF b p] flip False ef em show ?thesis by simp
  qed
  have stuck: "enter_position s raw dir price lev tgt stop False = (False, s)"
    if "position_size cur = 0 \<or> entry_price cur = 0 \<or> invested_amount cur = 0"
  proof -
    from that assms(1) have "fst ?f = None" by (simp add: exit_position_fails_iff)
    with flip show ?thesis by simp
  qed
  have closed: "(fst (enter_position s raw dir price lev tgt stop False)
               \<longleftrightarrow> 100 \<le> current_balance s + close_credit cur price \<and> price \<noteq> 0)
          \<and> (fst (enter_position s raw dir price lev tgt stop False) \<longrightarrow>
                current_balance (snd (enter_position s raw dir price lev tgt stop False))
                  = (current_balance s + close_credit cur price)
                    - (current_balance s + close_credit cur price) * 0.95
              \<and> (\<exists>pos. current_position (snd (enter_position s raw dir price lev tgt stop False))
                           = Some pos
                    \<and> symbol pos = symbol cur \<and> direction pos = dir
                    \<and> entry_price pos = apply_slippage price dir ''ENTER''
                    \<and> invested_amount pos
                        = (current_balance s + close_credit cur price) * 0.95
                          - (current_balance s + close_credit cur price) * 0.95 * trading_fee_rate
                    \<and> position_size pos = invested_amount pos * lev / entry_price pos)
              \<and> (\<exists>x e. trades (snd (enter_position s raw dir price lev tgt stop False))
                           = trades s @ [EXIT x, ENTER e]
                    \<and> xt_exit_reason x = ''Position Flip''
                    \<and> xt_direction x = direction cur
                    \<and> xt_price x = exit_fill cur price
                    \<and> xt_size x = position_size cur
                    \<and> xt_realized_pnl x = close_credit cur price - invested_amount cur
                    \<and> et_direction e = dir
                    \<and> et_price e = apply_slippage price dir ''ENTER''))
          \<and> (\<not> fst (enter_position s raw dir price lev tgt stop False) \<longrightarrow>
                current_balance (snd (enter_position s raw dir price lev tgt stop False))
                  = current_balance s + close_credit cur price
              \<and> current_position (snd (enter_position s raw dir price lev tgt stop False)) = None
              \<and> (\<exists>x. trades (snd (enter_position s raw dir price lev tgt stop False))
                         = trades s @ [EXIT x]
                    \<and> xt_exit_reason x = ''Position Flip''))"
    if nz: "position_size cur \<noteq> 0 \<and> entry_price cur \<noteq> 0 \<and> invested_amount cur \<noteq> 0"
  proof -
    from nz have z: "position_size cur \<noteq> 0" "entry_price cur \<noteq> 0"
      "invested_amount cur * 1 \<noteq> 0" by simp_all
    note x = exit_position_sized [OF assms(1) z, of price "''Position Flip''"]
    have nf: "fst ?f \<noteq> None" by (simp add: x)
    have e: "enter_position s raw dir price lev tgt stop False
               = open_position (snd ?f) (normalize_symbol raw) dir price lev tgt stop"
      using flip nf by simp
    have b: "current_balance (snd ?f) = current_balance s + close_credit cur price"
      by (simp add: x close_credit_def)
    have t: "trades (snd ?f) = trades s @
        [EXIT \<lparr>xt_symbol = symbol cur, xt_direction = direction cur,
                xt_price = exit_fill cur price, xt_size = position_size cur,
                xt_leverage = leverage cur,
                xt_realized_pnl = close_credit cur price - invested_amount cur,
                xt_exit_reason = ''Position Flip''\<rparr>]"
      by (simp add: x close_credit_def slice_margin_def)
    have c: "current_position (snd ?f) = None" by (simp add: x)
    show ?thesis
    proof (cases "100 \<le> current_balance s + close_credit cur price \<and> price \<noteq> 0")
      case True
      then have ok: "100 \<le> current_balance (snd ?f)" "price \<noteq> 0" by (simp_all add: b)
      show ?thesis
        unfolding e open_position_ok [OF ok]
        using True assms(2) by (simp add: b t)
    next
      case False
      then have "current_balance (snd ?f) < 100 \<or> price = 0" by (auto simp: b)
      then have "open_position (snd ?f) (normalize_symbol raw) dir price lev tgt stop
                   = (False, snd ?f)"
        by (rule open_position_blocked)
      with False show ?thesis
        unfolding e by (simp add: b t c)
    qed
  qed
  from same stuck closed show ?thesis by blast
qed

theorem flip_closes_then_opens_witness:
  "current_position worked_ledger = Some worked_position
   \<and> symbol worked_position = normalize_symbol ''X''
   \<and> direction worked_position \<noteq> ''SHORT''
   \<and> position_size worked_position \<noteq> 0 \<and> entry_price worked_position \<noteq> 0
   \<and> invested_amount worked_position \<noteq> 0
   \<and> close_credit worked_position 110 = 2305297512 / 203125
   \<and> fst (enter_position worked_ledger ''X'' ''SHORT'' 110 3 None None False)
   \<and> fst (enter_position (snd (exit_position worked_ledger 110 ''Manual Exit'' 1))
            ''X'' ''SHORT'' 110 3 None None False)
   \<and> current_balance (snd (enter_position worked_ledger ''X'' ''SHORT'' 110 3 None None False))
       = 601715003 / 1015625
   \<and> current_balance
        (snd (enter_position (snd (exit_position worked_ledger 110 ''Manual Exit'' 1))
                ''X'' ''SHORT'' 110 3 None None False))
       = 601715003 / 1015625
   \<and> current_position (snd (enter_position worked_ledger ''X'' ''SHORT'' 110 3 None None False))
       = current_position
           (snd (enter_position (snd (exit_position worked_ledger 110 ''Manual Exit'' 1))
                   ''X'' ''SHORT'' 110 3 None None False))
   \<and> (\<exists>pos. current_position
               (snd (enter_position worked_ledger ''X'' ''SHORT'' 110 3 None None False))
               = Some pos
         \<and> direction pos = ''SHORT'')"
proof -
  have p: "current_position worked_ledger = Some worked_position"
    by (simp add: worked_ledger_def)
  have y: "symbol worked_position = normalize_symbol ''X''"
    by (simp add: worked_position_def normalize_X)
  have d: "direction worked_position \<noteq> ''SHORT''" by (simp add: worked_position_def)
  have z1: "position_size worked_position \<noteq> 0" and z2: "entry_price worked_position \<noteq> 0"
    and z3: "invested_amount worked_position \<noteq> 0"
    by (simp_all add: worked_position_def)
  have cc: "close_credit worked_position 110 = 2305297512 / 203125"
    by (simp add: close_credit_def slice_value_def slice_margin_def
        directional_change_rate_def exit_fill_def worked_position_def slippage_rate_def
        trading_fee_rate_def)
  have b: "current_balance worked_ledger = 500" by (simp add: worked_ledger_def)
  note t = flip_closes_then_opens [OF p y d, of 110 3 None None "''Manual Exit''"]
  from t have e1: "fst (enter_position worked_ledger ''X'' ''SHORT'' 110 3 None None False)
      = fst (enter_position (snd (exit_position worked_ledger 110 ''Manual Exit'' 1))
               ''X'' ''SHORT'' 110 3 None None False)"
    by (rule conjunct1)
  from t have e2: "current_balance
        (snd (enter_position worked_ledger ''X'' ''SHORT'' 110 3 None None False))
      = current_balance
          (snd (enter_position (snd (exit_position worked_ledger 110 ''Manual Exit'' 1))
                  ''X'' ''SHORT'' 110 3 None None False))"
    by (rule conjunct1 [OF conjunct2])
  from t have e3: "current_position
        (snd (enter_position worked_ledger ''X'' ''SHORT'' 110 3 None None False))
      = current_position
          (snd (enter_position (snd (exit_position worked_ledger 110 ''Manual Exit'' 1))
                  ''X'' ''SHORT'' 110 3 None None False))"
    by (rule conjunct1 [OF conjunct2 [OF conjunct2]])
  from t z1 z2 z3
  have a: "(fst (enter_position worked_ledger ''X'' ''SHORT'' 110 3 None None False)
               \<longleftrightarrow> 100 \<le> current_balance worked_ledger + close_credit worked_position 110
                     \<and> (110::real) \<noteq> 0)"
    and s: "fst (enter_position worked_ledger ''X'' ''SHORT'' 110 3 None None False) \<longrightarrow>
              current_balance
                (snd (enter_position worked_ledger ''X'' ''SHORT'' 110 3 None None False))
                = (current_balance worked_ledger + close_credit worked_position 110)
                  - (current_balance worked_ledger + close_credit worked_position 110) * 0.95
            \<and> (\<exists>pos. current_position
                 (snd (enter_position worked_ledger ''X'' ''SHORT'' 110 3 None None False))
                 = Some pos \<and> direction pos = ''SHORT'')"
    by blast+
  from a have f: "fst (enter_position worked_ledger ''X'' ''SHORT'' 110 3 None None False)"
    by (simp add: b cc)
  with e1 have m: "fst (enter_position (snd (exit_position worked_ledger 110 ''Manual Exit'' 1))
               ''X'' ''SHORT'' 110 3 None None False)"
    by simp
  from s f have v: "current_balance
        (snd (enter_position worked_ledger ''X'' ''SHORT'' 110 3 None None False))
      = 601715003 / 1015625"
    by (simp add: b cc)
  from e2 v have v': "current_balance
        (snd (enter_position (snd (exit_position worked_ledger 110 ''Manual Exit'' 1))
                ''X'' ''SHORT'' 110 3 None None False))
       = 601715003 / 1015625"
    by simp
  from s f have q: "\<exists>pos. current_position
               (snd (enter_position worked_ledger ''X'' ''SHORT'' 110 3 None None False))
               = Some pos \<and> direction pos = ''SHORT''"
    by blast
  from p y d z1 z2 z3 cc f m v v' e3 q show ?thesis by (intro conjI)
qed

subsection \<open>C7: the balance is never negative\<close>

text \<open>
  C7. Starting from \<^verbatim>\<open>VirtualPortfolio(b)\<close> with \<open>b\<close> not negative, after every prefix
  of every sequence of \<open>enter_position\<close>, \<open>exit_position\<close> and
  \<open>update_trailing_stop\<close> calls, with any arguments but close fractions that are not
  negative, the cash balance is not negative.
\<close>

theorem balance_never_negative:
  assumes "0 \<le> b" and "list_all fraction_nonneg cs"
  shows "0 \<le> current_balance (run_calls (initial_ledger b) (take n cs))"
proof -
  have "solvent (initial_ledger b)"
    using assms(1) by (simp add: solvent_def initial_ledger_def)
  moreover have "list_all fraction_nonneg (take n cs)"
    using assms(2) by (auto simp: list_all_iff dest: in_set_takeD)
  ultimately have "solvent (run_calls (initial_ledger b) (take n cs))"
    by (rule solvent_run_calls)
  then show ?thesis by (simp add: solvent_def)
qed

theorem balance_never_negative_witness:
  "(0::real) \<le> 10000
   \<and> list_all fraction_nonneg
        [Enter ''X'' ''LONG'' 100 2 (Some 110) (Some 95) False, Exit 1 ''Stop'' 1]
   \<and> 0 \<le> current_balance
            (run_calls (initial_ledger 10000)
               (take 2 [Enter ''X'' ''LONG'' 100 2 (Some 110) (Some 95) False,
                        Exit 1 ''Stop'' 1]))"
proof -
  have b: "(0::real) \<le> 10000" by simp
  have l: "list_all fraction_nonneg
            [Enter ''X'' ''LONG'' 100 2 (Some 110) (Some 95) False, Exit 1 ''Stop'' 1]"
    by simp
  from balance_never_negative [OF b l, of 2] b l show ?thesis by (intro conjI)
qed

subsection \<open>C8: crossover signals\<close>

text \<open>
  C8, as stated, fails. With the fast average crossing above a slow average whose last
  value is 0 (a price under 0.00005 is stored as 0.0 by \<^verbatim>\<open>round(float(val), 4)\<close>),
  the moving-average detector divides by that value, the exception is swallowed and no
  signal comes out. And a series of four samples that crosses between its last two
  gives no signal from either detector.
\<close>

theorem crossover_missed:
  "(0::real) - 0 \<le> 0 \<and> (0::real) < 0.0001 - 0
   \<and> detect_real_ma_crossover [Some 0, Some 0, Some 0, Some 0, Some 0.0001]
        [Some 0, Some 0, Some 0, Some 0, Some 0] ''SHIB/USDT'' = []
   \<and> (1::real) - 2 \<le> 0 \<and> (0::real) < 3 - 2
   \<and> detect_real_ma_crossover [Some 1, Some 1, Some 1, Some 3]
        [Some 2, Some 2, Some 2, Some 2] ''BTC/USDT'' = []
   \<and> detect_real_macd_crossover [Some 1, Some 1, Some 1, Some 3]
        [Some 2, Some 2, Some 2, Some 2] ''BTC/USDT'' = []"
  by (simp add: detect_real_ma_crossover_def detect_real_macd_crossover_def recent5_def)

text \<open>
  C8, amended. For every pair of series: if either has fewer than five samples, or
  fewer than four of its last five present, neither detector emits a signal. Otherwise
  the detectors compare the last two present samples of each series. The momentum
  detector emits exactly one signal, the bullish cross, when (fast - slow) goes from
  non-positive to positive; exactly one signal, the bearish cross, when it goes from
  non-negative to negative; and none otherwise. The moving-average detector does the
  same with the golden and the dead cross when the last slow value is not zero, and
  emits nothing when it is zero. Equal last values give no signal. When the last two
  samples of a series are present, they are the two values compared.
\<close>

theorem crossover_for_every_series:
  "(\<not> (enough_samples fast \<and> enough_samples slow) \<longrightarrow>
      detect_real_macd_crossover fast slow symb = []
    \<and> detect_real_ma_crossover fast slow symb = [])
 \<and> (enough_samples fast \<and> enough_samples slow \<longrightarrow>
      ((\<exists>sg. detect_real_macd_crossover fast slow symb = [sg]
           \<and> sg_type sg = ''MACD_BULLISH_CROSS'' \<and> sg_direction sg = ''BUY'')
         \<longleftrightarrow> prev_sample fast - prev_sample slow \<le> 0
             \<and> 0 < curr_sample fast - curr_sample slow)
    \<and> ((\<exists>sg. detect_real_macd_crossover fast slow symb = [sg]
           \<and> sg_type sg = ''MACD_BEARISH_CROSS'' \<and> sg_direction sg = ''SELL'')
         \<longleftrightarrow> 0 \<le> prev_sample fast - prev_sample slow
             \<and> curr_sample fast - curr_sample slow < 0)
    \<and> (detect_real_macd_crossover fast slow symb = []
         \<longleftrightarrow> \<not> (prev_sample fast - prev_sample slow \<le> 0
                 \<and> 0 < curr_sample fast - curr_sample slow)
             \<and> \<not> (0 \<le> prev_sample fast - prev_sample slow
                 \<and> curr_sample fast - curr_sample slow < 0))
    \<and> (curr_sample slow \<noteq> 0 \<longrightarrow>
          ((\<exists>sg. detect_real_ma_crossover fast slow symb = [sg]
               \<and> sg_type sg = ''GOLDEN_CROSS'' \<and> sg_direction sg = ''BUY'')
             \<longleftrightarrow> prev_sample fast - prev_sample slow \<le> 0
                 \<and> 0 < curr_sample fast - curr_sample slow)
        \<and> ((\<exists>sg. detect_real_ma_crossover fast slow symb = [sg]
               \<and> sg_type sg = ''DEAD_CROSS'' \<and> sg_direction sg = ''SELL'')
             \<longleftrightarrow> 0 \<le> prev_sample fast - prev_sample slow
                 \<and> curr_sample fast - curr_sample slow < 0)
        \<and> (detect_real_ma_crossover fast slow symb = []
             \<longleftrightarrow> \<not> (prev_sample fast - prev_sample slow \<le> 0
                     \<and> 0 < curr_sample fast - curr_sample slow)
                 \<and> \<not> (0 \<le> prev_sample fast - prev_sample slow
                     \<and> curr_sample fast - curr_sample slow < 0)))
    \<and> (curr_sample slow = 0 \<longrightarrow> detect_real_ma_crossover fast slow symb = [])
    \<and> (curr_sample fast = curr_sample slow \<longrightarrow>
          detect_real_macd_crossover fast slow symb = []
        \<and> detect_real_ma_crossover fast slow symb = []))
 \<and> (5 \<le> length fast \<and> fast = fs @ [Some f1, Some f2] \<longrightarrow>
      prev_sample fast = f1 \<and> curr_sample fast = f2)
 \<and> (5 \<le> length slow \<and> slow = ss @ [Some s1, Some s2] \<longrightarrow>
      prev_sample slow = s1 \<and> curr_sample slow = s2)"
proof -
  have short: "detect_real_macd_crossover fast slow symb = []
             \<and> detect_real_ma_crossover fast slow symb = []"
    if "\<not> (enough_samples fast \<and> enough_samples slow)"
    using that
    by (auto simp: enough_samples_def detect_real_macd_crossover_def
        detect_real_ma_crossover_def Let_def)
  have macd: "detect_real_macd_crossover fast slow symb =
     (if prev_sample fast - prev_sample slow \<le> 0 \<and> curr_sample fast - curr_sample slow > 0
      then [\<lparr>sg_symbol = symb, sg_type = ''MACD_BULLISH_CROSS'',
             sg_strength = (if \<bar>curr_sample fast - curr_sample slow\<bar> > 0.001
                            then ''HIGH'' else ''MEDIUM''),
             sg_value = \<bar>curr_sample fast - curr_sample slow\<bar>, sg_direction = ''BUY'',
             sg_priority = (if \<bar>curr_sample fast - curr_sample slow\<bar> > 0.001
                            then 3 else 2)\<rparr>]
      else if prev_sample fast - prev_sample slow \<ge> 0
              \<and> curr_sample fast - curr_sample slow < 0
      then [\<lparr>sg_symbol = symb, sg_type = ''MACD_BEARISH_CROSS'',
             sg_strength = (if \<bar>curr_sample fast - curr_sample slow\<bar> > 0.001
                            then ''HIGH'' else ''MEDIUM''),
             sg_value = \<bar>curr_sample fast - curr_sample slow\<bar>, sg_direction = ''SELL'',
             sg_priority = (if \<bar>curr_sample fast - curr_sample slow\<bar> > 0.001
                            then 3 else 2)\<rparr>]
      else [])"
    if "enough_samples fast \<and> enough_samples slow"
    using that
    by (simp add: enough_samples_def detect_real_macd_crossover_def Let_def
        prev_sample_def curr_sample_def)
  have ma: "detect_real_ma_crossover fast slow symb =
     (if prev_sample fast - prev_sample slow \<le> 0 \<and> curr_sample fast - curr_sample slow > 0
      then (if curr_sample slow = 0 then []
            else [\<lparr>sg_symbol = symb, sg_type = ''GOLDEN_CROSS'',
                   sg_strength = ma_strength
                     (\<bar>curr_sample fast - curr_sample slow\<bar> / curr_sample slow * 100),
                   sg_value = \<bar>curr_sample fast - curr_sample slow\<bar> / curr_sample slow * 100,
                   sg_direction = ''BUY'',
                   sg_priority =
                     (if ma_strength
                           (\<bar>curr_sample fast - curr_sample slow\<bar> / curr_sample slow * 100)
                         = ''VERY_HIGH'' then 4 else 3)\<rparr>])
      else if prev_sample fast - prev_sample slow \<ge> 0
              \<and> curr_sample fast - curr_sample slow < 0
      then (if curr_sample slow = 0 then []
            else [\<lparr>sg_symbol = symb, sg_type = ''DEAD_CROSS'',
                   sg_strength = ma_strength
                     (\<bar>curr_sample fast - curr_sample slow\<bar> / curr_sample slow * 100),
                   sg_value = \<bar>curr_sample fast - curr_sample slow\<bar> / curr_sample slow * 100,
                   sg_direction = ''SELL'',
                   sg_priority =
                     (if ma_strength
                           (\<bar>curr_sample fast - curr_sample slow\<bar> / curr_sample slow * 100)
                         = ''VERY_HIGH'' then 4 else 3)\<rparr>])
      else [])"
    if "enough_samples fast \<and> enough_samples slow"
    using that
    by (simp add: enough_samples_def detect_real_ma_crossover_def Let_def
        prev_sample_def curr_sample_def)
  have lastf: "prev_sample fast = f1 \<and> curr_sample fast = f2"
    if h: "5 \<le> length fast \<and> fast = fs @ [Some f1, Some f2]"
    unfolding prev_sample_def curr_sample_def
    using recent5_nth [OF conjunct2 [OF h] conjunct1 [OF h]] by blast
  have lasts: "prev_sample slow = s1 \<and> curr_sample slow = s2"
    if h: "5 \<le> length slow \<and> slow = ss @ [Some s1, Some s2]"
    unfolding prev_sample_def curr_sample_def
    using recent5_nth [OF conjunct2 [OF h] conjunct1 [OF h]] by blast
  have full: "((\<exists>sg. detect_real_macd_crossover fast slow symb = [sg]
           \<and> sg_type sg = ''MACD_BULLISH_CROSS'' \<and> sg_direction sg = ''BUY'')
         \<longleftrightarrow> prev_sample fast - prev_sample slow \<le> 0
             \<and> 0 < curr_sample fast - curr_sample slow)
    \<and> ((\<exists>sg. detect_real_macd_crossover fast slow symb = [sg]
           \<and> sg_type sg = ''MACD_BEARISH_CROSS'' \<and> sg_direction sg = ''SELL'')
         \<longleftrightarrow> 0 \<le> prev_sample fast - prev_sample slow
             \<and> curr_sample fast - curr_sample slow < 0)
    \<and> (detect_real_macd_crossover fast slow symb = []
         \<longleftrightarrow> \<not> (prev_sample fast - prev_sample slow \<le> 0
                 \<and> 0 < curr_sample fast - curr_sample slow)
             \<and> \<not> (0 \<le> prev_sample fast - prev_sample slow
                 \<and> curr_sample fast - curr_sample slow < 0))
    \<and> (curr_sample slow \<noteq> 0 \<longrightarrow>
          ((\<exists>sg. detect_real_ma_crossover fast slow symb = [sg]
               \<and> sg_type sg = ''GOLDEN_CROSS'' \<and> sg_direction sg = ''BUY'')
             \<longleftrightarrow> prev_sample fast - prev_sample slow \<le> 0
                 \<and> 0 < curr_sample fast - curr_sample slow)
        \<and> ((\<exists>sg. detect_real_ma_crossover fast slow symb = [sg]
               \<and> sg_type sg = ''DEAD_CROSS'' \<and> sg_direction sg = ''SELL'')
             \<longleftrightarrow> 0 \<le> prev_sample fast - prev_sample slow
                 \<and> curr_sample fast - curr_sample slow < 0)
        \<and> (detect_real_ma_crossover fast slow symb = []
             \<longleftrightarrow> \<not> (prev_sample fast - prev_sample slow \<le> 0
                     \<and> 0 < curr_sample fast - curr_sample slow)
                 \<and> \<not> (0 \<le> prev_sample fast - prev_sample slow
                     \<and> curr_sample fast - curr_sample slow < 0)))
    \<and> (curr_sample slow = 0 \<longrightarrow> detect_real_ma_crossover fast slow symb = [])
    \<and> (curr_sample fast = curr_sample slow \<longrightarrow>
          detect_real_macd_crossover fast slow symb = []
        \<and> detect_real_ma_crossover fast slow symb = [])"
    if e: "enough_samples fast \<and> enough_samples slow"
    unfolding macd [OF e] ma [OF e] by auto
  from short full lastf lasts show ?thesis by blast
qed

theorem crossover_for_every_series_witness:
  "enough_samples [Some 1, Some 1, Some 1, Some 1, Some 3]
   \<and> enough_samples [Some 2, Some 2, Some 2, Some 2, Some 2]
   \<and> 5 \<le> length [Some 1, Some 1, Some 1, Some 1, Some (3::real)]
   \<and> [Some 1, Some 1, Some 1, Some 1, Some (3::real)] = [Some 1, Some 1, Some 1] @ [Some 1, Some 3]
   \<and> prev_sample [Some 1, Some 1, Some 1, Some 1, Some 3] = 1
   \<and> curr_sample [Some 1, Some 1, Some 1, Some 1, Some 3] = 3
   \<and> prev_sample [Some 2, Some 2, Some 2, Some 2, Some 2] = 2
   \<and> curr_sample [Some 2, Some 2, Some 2, Some 2, Some 2] = 2
   \<and> curr_sample [Some 2, Some 2, Some 2, Some 2, Some 2] \<noteq> 0
   \<and> (\<exists>sg. detect_real_macd_crossover [Some 1, Some 1, Some 1, Some 1, Some 3]
               [Some 2, Some 2, Some 2, Some 2, Some 2] ''BTC/USDT'' = [sg]
          \<and> sg_type sg = ''MACD_BULLISH_CROSS'' \<and> sg_direction sg = ''BUY'')
   \<and> (\<exists>sg. detect_real_ma_crossover [Some 1, Some 1, Some 1, Some 1, Some 3]
               [Some 2, Some 2, Some 2, Some 2, Some 2] ''BTC/USDT'' = [sg]
          \<and> sg_type sg = ''GOLDEN_CROSS'' \<and> sg_direction sg = ''BUY'')
   \<and> detect_real_macd_crossover [Some 2, Some 2, Some 2, Some 2, Some 2]
        [Some 2, Some 2, Some 2, Some 2, Some 2] ''BTC/USDT'' = []
   \<and> detect_real_ma_crossover [Some 2, Some 2, Some 2, Some 2, Some 2]
        [Some 2, Some 2, Some 2, Some 2, Some 2] ''BTC/USDT'' = []
   \<and> \<not> enough_samples [Some 1, Some 1, Some 1, Some 3]
   \<and> detect_real_macd_crossover [Some 1, Some 1, Some 1, Some 3]
        [Some 2, Some 2, Some 2, Some 2] ''BTC/USDT'' = []"
proof -
  let ?F = "[Some 1, Some 1, Some 1, Some 1, Some (3::real)]"
  let ?S = "[Some 2, Some 2, Some 2, Some 2, Some (2::real)]"
  let ?f = "[Some 1, Some 1, Some 1, Some (3::real)]"
  let ?s = "[Some 2, Some 2, Some 2, Some (2::real)]"
  have eF: "enough_samples ?F" and eS: "enough_samples ?S"
    by (simp_all add: enough_samples_def recent5_def)
  have lF: "5 \<le> length ?F" by simp
  have aF: "?F = [Some 1, Some 1, Some 1] @ [Some 1, Some 3]" by simp
  have lS: "5 \<le> length ?S" by simp
  have aS: "?S = [Some 2, Some 2, Some 2] @ [Some 2, Some 2]" by simp
  have ns: "\<not> enough_samples ?f" by (simp add: enough_samples_def)
  note up = crossover_for_every_series [of ?F ?S "''BTC/USDT''"
      "[Some 1, Some 1, Some 1]" 1 3 "[Some 2, Some 2, Some 2]" 2 2]
  note eq = crossover_for_every_series [of ?S ?S "''BTC/USDT''"
      "[Some 2, Some 2, Some 2]" 2 2 "[Some 2, Some 2, Some 2]" 2 2]
  note sh = crossover_for_every_series [of ?f ?s "''BTC/USDT''" "[]" 0 0 "[]" 0 0]
  note lastF = mp [OF conjunct1 [OF conjunct2 [OF conjunct2 [OF up]]] conjI [OF lF aF]]
  note lastS = mp [OF conjunct2 [OF conjunct2 [OF conjunct2 [OF up]]] conjI [OF lS aS]]
  from lastF have pF: "prev_sample ?F = 1" and cF: "curr_sample ?F = 3" by simp_all
  from lastS have pS: "prev_sample ?S = 2" and cS: "curr_sample ?S = 2" by simp_all
  from cS have nz: "curr_sample ?S \<noteq> 0" by simp
  note body = mp [OF conjunct1 [OF conjunct2 [OF up]] conjI [OF eF eS]]
  note bull = conjunct1 [OF body]
  note mavg = mp [OF conjunct1 [OF conjunct2 [OF conjunct2 [OF conjunct2 [OF body]]]] nz]
  note gold = conjunct1 [OF mavg]
  from bull have g: "\<exists>sg. detect_real_macd_crossover ?F ?S ''BTC/USDT'' = [sg]
           \<and> sg_type sg = ''MACD_BULLISH_CROSS'' \<and> sg_direction sg = ''BUY''"
    by (simp only: pF cF pS cS) simp
  from gold have h: "\<exists>sg. detect_real_ma_crossover ?F ?S ''BTC/USDT'' = [sg]
           \<and> sg_type sg = ''GOLDEN_CROSS'' \<and> sg_direction sg = ''BUY''"
    by (simp only: pF cF pS cS) simp
  note body_eq = mp [OF conjunct1 [OF conjunct2 [OF eq]] conjI [OF eS eS]]
  note same = mp [OF conjunct2 [OF conjunct2 [OF conjunct2 [OF conjunct2
                [OF conjunct2 [OF body_eq]]]]] refl]
  from same have i: "detect_real_macd_crossover ?S ?S ''BTC/USDT'' = []"
    and j: "detect_real_ma_crossover ?S ?S ''BTC/USDT'' = []"
    by simp_all
  from ns have ns2: "\<not> (enough_samples ?f \<and> enough_samples ?s)" by simp
  from mp [OF conjunct1 [OF sh] ns2]
  have k: "detect_real_macd_crossover ?f ?s ''BTC/USDT'' = []" by simp
  from eF eS lF aF pF cF pS cS nz g h i j ns k show ?thesis by (intro conjI)
qed

subsection \<open>C9: concurrent callers\<close>




subsection \<open>C10: an exit always credits the balance\<close>




end
